theory Spec2Isabelle
  imports Main
begin

section \<open>Values, exceptions and the library boundary\<close>

text \<open>
  Log records, alert contexts and configuration sections are Python dictionaries holding
  JSON data. A dictionary is an association list read with \<open>map_of\<close> (the keys of a
  parsed JSON object are distinct). \<open>JRatio n d\<close> is the float that Python's true
  division \<open>n / d\<close> returns; other floats do not occur in the modelled code.
\<close>

datatype json =
    JNull
  | JBool bool
  | JInt int
  | JStr string
  | JRatio int int
  | JList "json list"
  | JObj "(string \<times> json) list"

type_synonym pydict = "(string \<times> json) list"

text \<open>Python truthiness, as \<open>if not value\<close> tests it.\<close>

fun truthy :: "json \<Rightarrow> bool" where
  "truthy JNull = False"
| "truthy (JBool b) = b"
| "truthy (JInt n) = (n \<noteq> 0)"
| "truthy (JStr s) = (s \<noteq> [])"
| "truthy (JRatio n d) = (n \<noteq> 0)"
| "truthy (JList xs) = (xs \<noteq> [])"
| "truthy (JObj kvs) = (kvs \<noteq> [])"

text \<open>\<open>d.get(key, default)\<close>.\<close>

definition dict_get :: "pydict \<Rightarrow> string \<Rightarrow> json \<Rightarrow> json" where
  "dict_get d k dflt = (case map_of d k of None \<Rightarrow> dflt | Some v \<Rightarrow> v)"

text \<open>
  The exceptions the modelled code can meet. \<open>RequestException\<close> is
  \<open>requests.RequestException\<close> with its subclasses (connection errors, timeouts and
  the \<open>HTTPError\<close> of \<open>raise_for_status\<close>); \<open>OtherException\<close> is any exception outside
  the classes named here.
\<close>

datatype py_exception =
    ValueError
  | TypeError
  | AttributeError
  | KeyError
  | OverflowError
  | RequestException
  | OtherException

text \<open>\<open>str(n)\<close> for an integer: its decimal digits.\<close>

definition digit_char :: "nat \<Rightarrow> char" where
  "digit_char n = ''0123456789'' ! n"

function str_nat :: "nat \<Rightarrow> string" where
  "str_nat n = (if n < 10 then [digit_char n] else str_nat (n div 10) @ [digit_char (n mod 10)])"
  by pat_completeness auto
termination
  by (relation "measure id") auto

declare str_nat.simps [simp del]

definition str_int :: "int \<Rightarrow> string" where
  "str_int i = (if i < 0 then CHR ''-'' # str_nat (nat (- i)) else str_nat (nat i))"

text \<open>\<open>sep.join(parts)\<close>.\<close>

fun join_with :: "string \<Rightarrow> string list \<Rightarrow> string" where
  "join_with sep [] = []"
| "join_with sep [x] = x"
| "join_with sep (x # y # ys) = x @ sep @ join_with sep (y # ys)"

subsection \<open>Datetimes\<close>

text \<open>
  A \<open>datetime\<close> is offset-naive or offset-aware. \<open>Naive t\<close> is the wall-clock reading
  \<open>t\<close>, in microseconds after 2024-01-01T00:00:00; \<open>Aware t off\<close> is the wall-clock
  reading \<open>t\<close> of a zone whose UTC offset is \<open>off\<close> microseconds. Wall-clock readings
  range from 0001-01-01T00:00:00 to 9999-12-31T23:59:59.999999, a \<open>timedelta\<close> (a number
  of microseconds) from -999999999 days to 999999999 days, 23:59:59.999999.
\<close>

datatype datetime = Naive int | Aware int int

definition datetime_min :: int where
  "datetime_min = - 63839664000000000"

definition datetime_max :: int where
  "datetime_max = 251698233599999999"

fun wall :: "datetime \<Rightarrow> int" where
  "wall (Naive t) = t"
| "wall (Aware t off) = t"

fun is_aware :: "datetime \<Rightarrow> bool" where
  "is_aware (Naive t) = False"
| "is_aware (Aware t off) = True"

text \<open>The position of a datetime on the time line of its kind (UTC for an aware one).\<close>

fun instant :: "datetime \<Rightarrow> int" where
  "instant (Naive t) = t"
| "instant (Aware t off) = t - off"

fun shift :: "datetime \<Rightarrow> int \<Rightarrow> datetime" where
  "shift (Naive t) d = Naive (t + d)"
| "shift (Aware t off) d = Aware (t + d) off"

text \<open>
  \<open>a < b\<close> (and \<open>b > a\<close>): \<open>TypeError\<close> between a naive and an aware datetime.
\<close>

definition dt_less :: "datetime \<Rightarrow> datetime \<Rightarrow> py_exception + bool" where
  "dt_less a b =
     (if is_aware a = is_aware b then Inr (instant a < instant b) else Inl TypeError)"

text \<open>
  \<open>a - d\<close> for a \<open>timedelta\<close> \<open>d\<close>: arithmetic on the wall clock, \<open>OverflowError\<close> when the
  result leaves the range of \<open>datetime\<close>.
\<close>

definition dt_minus :: "datetime \<Rightarrow> int \<Rightarrow> py_exception + datetime" where
  "dt_minus a d =
     (if datetime_min \<le> wall a - d \<and> wall a - d \<le> datetime_max then Inr (shift a (- d))
      else Inl OverflowError)"

text \<open>\<open>a - b\<close> for two datetimes: \<open>TypeError\<close> between a naive and an aware one.\<close>

definition dt_diff :: "datetime \<Rightarrow> datetime \<Rightarrow> py_exception + int" where
  "dt_diff a b =
     (if is_aware a = is_aware b then Inr (instant a - instant b) else Inl TypeError)"

text \<open>
  The constructor \<open>timedelta(...)\<close> for a total of \<open>us\<close> microseconds: \<open>OverflowError\<close>
  outside the range of \<open>timedelta\<close>.
\<close>

definition timedelta :: "int \<Rightarrow> py_exception + int" where
  "timedelta us =
     (if - 86399999913600000000 \<le> us \<and> us \<le> 86399999999999999999 then Inr us
      else Inl OverflowError)"

subsection \<open>Alerts\<close>

text \<open>
  The \<open>Alert\<close> dataclass. The rule engine copies \<open>timestamp\<close> and \<open>session_id\<close> from
  the log record without checking their type, so both are JSON values here. The field
  \<open>context\<close> is called \<open>alert_context\<close>.
\<close>

record alert =
  alert_id :: string
  rule_name :: string
  severity :: string
  description :: string
  category :: string
  timestamp :: json
  session_id :: json
  alert_context :: pydict
  raw_log :: pydict
  escalation_count :: int

subsection \<open>Library functions\<close>

text \<open>
  The functions of Python's standard library and of third-party packages that the code
  calls are parameters of the model, collected in one record:
  \<^item> \<open>fromisoformat s\<close> is \<open>datetime.fromisoformat(s)\<close> on a string, \<open>None\<close> where it
    raises \<open>ValueError\<close>;
  \<^item> \<open>isoformat t\<close> is \<open>t.isoformat()\<close>;
  \<^item> \<open>str_timedelta d\<close> is \<open>str\<close> of a \<open>timedelta\<close> of \<open>d\<close> microseconds;
  \<^item> \<open>repr_value v\<close> is \<open>str(v)\<close> for a float, a list or a dictionary;
  \<^item> \<open>md5_hexdigest s\<close> is \<open>hashlib.md5(s.encode()).hexdigest()\<close>;
  \<^item> \<open>other_attribute a name\<close> is \<open>str(getattr(a, name))\<close> for a name that is an attribute
    of the alert object without being one of its ten fields (\<open>__doc__\<close>, \<open>__dict__\<close>,
    \<open>__class__\<close>, the methods), and \<open>None\<close> where \<open>hasattr(a, name)\<close> is false;
  \<^item> \<open>pattern_search p r\<close> is \<open>re.compile(p, re.IGNORECASE).search(json.dumps(r, default=str))\<close>
    as a truth value;
  \<^item> \<open>pattern_compiles p\<close> tells whether \<open>re.compile\<close> accepts \<open>p\<close>;
  \<^item> \<open>render_template t a\<close> is the exception, if any, that formatting the webhook
    payload template \<open>t\<close> with the fields of \<open>a\<close> and parsing the result as JSON raises.
\<close>

record pylib =
  fromisoformat :: "string \<Rightarrow> datetime option"
  isoformat :: "datetime \<Rightarrow> string"
  str_timedelta :: "int \<Rightarrow> string"
  repr_value :: "json \<Rightarrow> string"
  md5_hexdigest :: "string \<Rightarrow> string"
  other_attribute :: "alert \<Rightarrow> string \<Rightarrow> string option"
  pattern_search :: "string \<Rightarrow> pydict \<Rightarrow> bool"
  pattern_compiles :: "string \<Rightarrow> bool"
  render_template :: "string \<Rightarrow> alert \<Rightarrow> py_exception option"

text \<open>\<open>str(v)\<close>, also what an f-string does with \<open>{v}\<close>.\<close>

definition py_str :: "pylib \<Rightarrow> json \<Rightarrow> string" where
  "py_str L v =
     (case v of
        JStr s \<Rightarrow> s
      | JInt n \<Rightarrow> str_int n
      | JNull \<Rightarrow> ''None''
      | JBool b \<Rightarrow> (if b then ''True'' else ''False'')
      | _ \<Rightarrow> repr_value L v)"

text \<open>
  \<open>datetime.fromisoformat(v)\<close> on a Python value: \<open>TypeError\<close> when \<open>v\<close> is not a
  string, \<open>ValueError\<close> when the string is not an ISO timestamp.
\<close>

definition datetime_fromisoformat :: "pylib \<Rightarrow> json \<Rightarrow> py_exception + datetime" where
  "datetime_fromisoformat L v =
     (case v of
        JStr s \<Rightarrow> (case fromisoformat L s of None \<Rightarrow> Inl ValueError | Some t \<Rightarrow> Inr t)
      | _ \<Rightarrow> Inl TypeError)"

definition timedelta_minutes :: "int \<Rightarrow> int" where
  "timedelta_minutes m = m * 60000000"

definition timedelta_hours :: "int \<Rightarrow> int" where
  "timedelta_hours h = h * 3600000000"

section \<open>AlertDeduplicator\<close>

text \<open>The \<open>deduplication\<close> section of the configuration; an absent key is \<open>None\<close>.\<close>

record dedup_config =
  cfg_enabled :: "bool option"
  cfg_window_minutes :: "int option"
  cfg_key_fields :: "string list option"
  cfg_max_occurrences :: "int option"

text \<open>
  The deduplicator. \<open>alert_history\<close> is a \<open>defaultdict(deque)\<close>: a key never written
  reads as the empty queue, so the table is a total function.
\<close>

record alert_deduplicator =
  d_enabled :: bool
  window_minutes :: int
  key_fields :: "string list"
  max_occurrences :: int
  alert_history :: "string \<Rightarrow> datetime list"

definition AlertDeduplicator_init :: "dedup_config \<Rightarrow> alert_deduplicator" where
  "AlertDeduplicator_init config =
     \<lparr> d_enabled = (case cfg_enabled config of None \<Rightarrow> True | Some b \<Rightarrow> b),
       window_minutes = (case cfg_window_minutes config of None \<Rightarrow> 5 | Some w \<Rightarrow> w),
       key_fields =
         (case cfg_key_fields config of None \<Rightarrow> [''rule_name'', ''session_id''] | Some fs \<Rightarrow> fs),
       max_occurrences = (case cfg_max_occurrences config of None \<Rightarrow> 3 | Some n \<Rightarrow> n),
       alert_history = (\<lambda>k. []) \<rparr>"

text \<open>
  \<open>str(getattr(alert, field))\<close> where \<open>hasattr(alert, field)\<close> holds: the ten fields of
  the dataclass, and the other attributes of the object through the library.
\<close>

definition alert_getattr :: "pylib \<Rightarrow> alert \<Rightarrow> string \<Rightarrow> string option" where
  "alert_getattr L a field =
     (if field = ''alert_id'' then Some (alert_id a)
      else if field = ''rule_name'' then Some (rule_name a)
      else if field = ''severity'' then Some (severity a)
      else if field = ''description'' then Some (description a)
      else if field = ''category'' then Some (category a)
      else if field = ''timestamp'' then Some (py_str L (timestamp a))
      else if field = ''session_id'' then Some (py_str L (session_id a))
      else if field = ''context'' then Some (py_str L (JObj (alert_context a)))
      else if field = ''raw_log'' then Some (py_str L (JObj (raw_log a)))
      else if field = ''escalation_count'' then Some (str_int (escalation_count a))
      else other_attribute L a field)"

fun key_values :: "pylib \<Rightarrow> alert \<Rightarrow> string list \<Rightarrow> string list" where
  "key_values L a [] = []"
| "key_values L a (field # rest) =
     (case alert_getattr L a field of
        Some s \<Rightarrow> s # key_values L a rest
      | None \<Rightarrow>
          (case map_of (alert_context a) field of
             Some v \<Rightarrow> py_str L v # key_values L a rest
           | None \<Rightarrow> key_values L a rest))"

definition dedup_key :: "pylib \<Rightarrow> alert_deduplicator \<Rightarrow> alert \<Rightarrow> string" where
  "dedup_key L d a = join_with ''|'' (key_values L a (key_fields d))"

text \<open>
  The loop \<open>while history and history[0] < cutoff_time: history.popleft()\<close>: it stops at
  the first entry that is not older than the cutoff, and a comparison that raises
  leaves the queue as far as it was pruned.
\<close>

fun prune :: "datetime \<Rightarrow> datetime list \<Rightarrow> py_exception option \<times> datetime list" where
  "prune cutoff_time [] = (None, [])"
| "prune cutoff_time (h # history) =
     (case dt_less h cutoff_time of
        Inl e \<Rightarrow> (Some e, h # history)
      | Inr True \<Rightarrow> prune cutoff_time history
      | Inr False \<Rightarrow> (None, h # history))"

text \<open>
  \<open>should_alert\<close> returns its answer, or the exception raised, with the deduplicator as
  the call leaves it. Nothing is written before the pruning loop, so the exceptions of
  \<open>datetime.fromisoformat(alert.timestamp)\<close>, of \<open>timedelta(minutes=self.window_minutes)\<close>
  and of the subtraction leave the deduplicator as it was. The pruned queue stays in
  the table also when the alert is suppressed. \<open>window_minutes\<close> is an integer.
\<close>

definition should_alert ::
  "pylib \<Rightarrow> alert_deduplicator \<Rightarrow> alert \<Rightarrow> (py_exception + bool) \<times> alert_deduplicator" where
  "should_alert L d a =
     (if \<not> d_enabled d then (Inr True, d)
      else
        let key = dedup_key L d a in
        case datetime_fromisoformat L (timestamp a) of
          Inl e \<Rightarrow> (Inl e, d)
        | Inr now \<Rightarrow>
            (case timedelta (timedelta_minutes (window_minutes d)) of
               Inl e \<Rightarrow> (Inl e, d)
             | Inr w \<Rightarrow>
                 (case dt_minus now w of
                    Inl e \<Rightarrow> (Inl e, d)
                  | Inr cutoff_time \<Rightarrow>
                      (case prune cutoff_time (alert_history d key) of
                         (Some e, history) \<Rightarrow>
                           (Inl e, d\<lparr>alert_history := (alert_history d)(key := history)\<rparr>)
                       | (None, history) \<Rightarrow>
                           if max_occurrences d \<le> int (length history)
                           then (Inr False, d\<lparr>alert_history := (alert_history d)(key := history)\<rparr>)
                           else (Inr True,
                                 d\<lparr>alert_history := (alert_history d)(key := history @ [now])\<rparr>)))))"


text \<open>The timestamps of the accepted alerts, given the answers and all timestamps.\<close>

definition accepted :: "bool list \<Rightarrow> datetime list \<Rightarrow> datetime list" where
  "accepted bs ts = map snd (filter fst (zip bs ts))"

text \<open>The entries of a list of instants that fall in the window \<open>[t, t + w]\<close>.\<close>

definition in_window :: "int \<Rightarrow> int \<Rightarrow> int list \<Rightarrow> int list" where
  "in_window t w xs = filter (\<lambda>x. t \<le> x \<and> x \<le> t + w) xs"


section \<open>Notification channels\<close>

text \<open>
  What a channel does to the outside world is recorded as a list of events, in order:
  an alert printed on the console, a line appended to the log file, a mail handed to
  the SMTP server, the \<open>k\<close>-th HTTP request of a webhook delivery, the request to
  Grafana, a \<open>time.sleep\<close> of so many seconds, the readiness probe and the range query
  (with its start and end) sent to the log source, and a record of the \<open>logging\<close>
  module (its level and its message, without the text of the exception where the
  source appends one).
\<close>

datatype log_level = ERROR | WARNING | INFO

datatype event =
    ConsolePrint alert
  | FileAppend alert
  | EmailSend "string list" alert
  | WebhookRequest nat
  | GrafanaRequest
  | Sleep nat
  | LokiProbe
  | LokiQuery int int
  | Log log_level string

text \<open>
  What an HTTP call does: a response with a status code arrives, the call raises a
  \<open>requests.RequestException\<close> (connection error, timeout), or it raises something else.
\<close>

datatype http_outcome = Status nat | RequestFailed | OtherFailure

text \<open>\<open>response.raise_for_status()\<close> raises \<open>HTTPError\<close> for the 4xx and 5xx codes only.\<close>

definition raise_for_status :: "nat \<Rightarrow> bool" where
  "raise_for_status s = (400 \<le> s \<and> s < 600)"

text \<open>
  The outside world during one \<open>send_alert\<close>: whether printing, the rotation and append
  of the log file, and the rendering and SMTP transaction of a mail complete without an
  exception; the outcome of the \<open>k\<close>-th webhook request; the outcome of the request to
  Grafana.
\<close>

record channels =
  stdout_ok :: bool
  logfile_ok :: bool
  smtp_ok :: bool
  webhook_reply :: "nat \<Rightarrow> http_outcome"
  grafana_reply :: http_outcome

text \<open>What \<open>handler.send(alert)\<close> returns or raises, with the events it caused.\<close>

type_synonym send_result = "(py_exception + bool) \<times> event list"

subsection \<open>ConsoleNotifier\<close>

record console_config =
  cc_enabled :: "bool option"
  cc_min_severity :: "string option"
  cc_format :: "string option"
  cc_colors :: "bool option"

record console_notifier =
  c_enabled :: bool
  c_min_severity :: string
  c_format :: string
  c_colors :: bool

definition ConsoleNotifier_init :: "console_config \<Rightarrow> console_notifier" where
  "ConsoleNotifier_init config =
     \<lparr> c_enabled = (case cc_enabled config of None \<Rightarrow> True | Some b \<Rightarrow> b),
       c_min_severity = (case cc_min_severity config of None \<Rightarrow> ''MEDIUM'' | Some s \<Rightarrow> s),
       c_format = (case cc_format config of None \<Rightarrow> ''text'' | Some f \<Rightarrow> f),
       c_colors = (case cc_colors config of None \<Rightarrow> True | Some b \<Rightarrow> b) \<rparr>"

definition severity_levels :: "(string \<times> nat) list" where
  "severity_levels = [(''CRITICAL'', 4), (''HIGH'', 3), (''MEDIUM'', 2), (''LOW'', 1)]"

definition should_notify :: "console_notifier \<Rightarrow> string \<Rightarrow> bool" where
  "should_notify n sev =
     (if \<not> c_enabled n then False
      else
        let current_level = (case map_of severity_levels sev of None \<Rightarrow> 0 | Some l \<Rightarrow> l);
            min_level = (case map_of severity_levels (c_min_severity n) of None \<Rightarrow> 2 | Some l \<Rightarrow> l)
        in min_level \<le> current_level)"

text \<open>
  The text format parses \<open>alert.timestamp\<close> inside the \<open>try\<close> block; the JSON format
  does not parse it.
\<close>

definition console_send :: "pylib \<Rightarrow> channels \<Rightarrow> console_notifier \<Rightarrow> alert \<Rightarrow> send_result" where
  "console_send L env n a =
     (if \<not> should_notify n (severity a) then (Inr True, [])
      else if c_format n = ''json'' then
        (if stdout_ok env then (Inr True, [ConsolePrint a])
         else (Inr False, [Log ERROR ''Console notification failed'']))
      else
        (case datetime_fromisoformat L (timestamp a) of
           Inl e \<Rightarrow> (Inr False, [Log ERROR ''Console notification failed''])
         | Inr t \<Rightarrow>
             if stdout_ok env then (Inr True, [ConsolePrint a])
             else (Inr False, [Log ERROR ''Console notification failed''])))"

subsection \<open>LogFileNotifier\<close>

record logfile_config =
  lc_enabled :: "bool option"
  lc_path :: "string option"
  lc_format :: "string option"

record logfile_notifier =
  lf_enabled :: bool
  lf_path :: string
  lf_format :: string

definition LogFileNotifier_init :: "logfile_config \<Rightarrow> logfile_notifier" where
  "LogFileNotifier_init config =
     \<lparr> lf_enabled = (case lc_enabled config of None \<Rightarrow> True | Some b \<Rightarrow> b),
       lf_path = (case lc_path config of None \<Rightarrow> ''data/alerts/security-alerts.log'' | Some p \<Rightarrow> p),
       lf_format = (case lc_format config of None \<Rightarrow> ''json'' | Some f \<Rightarrow> f) \<rparr>"

definition logfile_send :: "channels \<Rightarrow> logfile_notifier \<Rightarrow> alert \<Rightarrow> send_result" where
  "logfile_send env n a =
     (if \<not> lf_enabled n then (Inr True, [])
      else if logfile_ok env then (Inr True, [FileAppend a])
      else (Inr False, [Log ERROR ''Log file notification failed'']))"

subsection \<open>EmailNotifier\<close>

text \<open>
  Of the mail settings only \<open>enabled\<close> and \<open>recipients\<close> decide what \<open>send\<close> returns
  before the transport is used; server, port, credentials and templates only feed the
  rendering and the SMTP transaction, whose outcome is \<open>smtp_ok\<close>.
\<close>

record email_config =
  ec_enabled :: "bool option"
  ec_recipients :: "(string \<times> string list) list option"

record email_notifier =
  em_enabled :: bool
  em_recipients :: "(string \<times> string list) list"

definition EmailNotifier_init :: "email_config \<Rightarrow> email_notifier" where
  "EmailNotifier_init config =
     \<lparr> em_enabled = (case ec_enabled config of None \<Rightarrow> False | Some b \<Rightarrow> b),
       em_recipients = (case ec_recipients config of None \<Rightarrow> [] | Some r \<Rightarrow> r) \<rparr>"

definition get_recipients :: "email_notifier \<Rightarrow> string \<Rightarrow> string list" where
  "get_recipients n sev =
     (case map_of (em_recipients n) sev of
        Some rs \<Rightarrow> rs
      | None \<Rightarrow> (case map_of (em_recipients n) ''default'' of None \<Rightarrow> [] | Some rs \<Rightarrow> rs))"

text \<open>The mail body renders \<open>alert.timestamp\<close> with \<open>datetime.fromisoformat\<close>, inside the \<open>try\<close>.\<close>

definition email_send :: "pylib \<Rightarrow> channels \<Rightarrow> email_notifier \<Rightarrow> alert \<Rightarrow> send_result" where
  "email_send L env n a =
     (if \<not> em_enabled n then (Inr True, [])
      else
        let recipients = get_recipients n (severity a) in
        if recipients = [] then (Inr True, [])
        else
          (case datetime_fromisoformat L (timestamp a) of
             Inl e \<Rightarrow> (Inr False, [Log ERROR ''Email notification failed''])
           | Inr t \<Rightarrow>
               if smtp_ok env then
                 (Inr True,
                  [EmailSend recipients a,
                   Log INFO (''Email sent for alert '' @ alert_id a @ '' to '' @
                     str_nat (length recipients) @ '' recipients'')])
               else (Inr False, [Log ERROR ''Email notification failed''])))"

subsection \<open>WebhookNotifier\<close>

text \<open>
  Method, headers and timeout only shape the request; its outcome is \<open>webhook_reply\<close>.
\<close>

record webhook_config =
  wc_enabled :: "bool option"
  wc_url :: "string option"
  wc_retry_attempts :: "int option"
  wc_payload_template :: "string option"

record webhook_notifier =
  w_enabled :: bool
  w_url :: string
  w_retry_attempts :: int
  w_payload_template :: string

definition WebhookNotifier_init :: "webhook_config \<Rightarrow> webhook_notifier" where
  "WebhookNotifier_init config =
     \<lparr> w_enabled = (case wc_enabled config of None \<Rightarrow> False | Some b \<Rightarrow> b),
       w_url = (case wc_url config of None \<Rightarrow> [] | Some u \<Rightarrow> u),
       w_retry_attempts = (case wc_retry_attempts config of None \<Rightarrow> 3 | Some n \<Rightarrow> n),
       w_payload_template = (case wc_payload_template config of None \<Rightarrow> [] | Some t \<Rightarrow> t) \<rparr>"

text \<open>
  \<open>_create_payload\<close>: the exception it raises, if any. Without a template the payload is
  \<open>asdict(alert)\<close>, which cannot fail.
\<close>

definition create_payload :: "pylib \<Rightarrow> webhook_notifier \<Rightarrow> alert \<Rightarrow> py_exception option" where
  "create_payload L n a =
     (if w_payload_template n \<noteq> [] then render_template L (w_payload_template n) a else None)"

text \<open>
  The loop \<open>for attempt in range(self.retry_attempts)\<close>, by recursion on the attempts
  still to make. A response that \<open>raise_for_status\<close> accepts ends the loop with \<open>True\<close>;
  an \<open>HTTPError\<close> or another \<open>RequestException\<close> is caught, logged and followed by a
  sleep of \<open>2 ** attempt\<close> seconds unless the attempt is the last; any other exception
  leaves \<open>send\<close>. After the loop \<open>send\<close> logs an error and returns \<open>False\<close>.
\<close>

text \<open>Whether a call with this outcome raises a \<open>requests.RequestException\<close>.\<close>

fun request_raises :: "http_outcome \<Rightarrow> bool" where
  "request_raises (Status s) = raise_for_status s"
| "request_raises RequestFailed = True"
| "request_raises OtherFailure = False"

fun webhook_attempts ::
  "(nat \<Rightarrow> http_outcome) \<Rightarrow> string \<Rightarrow> int \<Rightarrow> nat list \<Rightarrow> send_result" where
  "webhook_attempts reply aid retry_attempts [] =
     (Inr False,
      [Log ERROR (''Webhook notification failed after '' @ str_int retry_attempts @ '' attempts'')])"
| "webhook_attempts reply aid retry_attempts (attempt # rest) =
     (if reply attempt = OtherFailure then (Inl OtherException, [WebhookRequest attempt])
      else if request_raises (reply attempt) then
        (case webhook_attempts reply aid retry_attempts rest of
           (r, evs) \<Rightarrow>
             (r, [WebhookRequest attempt,
                  Log WARNING (''Webhook attempt '' @ str_nat (attempt + 1) @ '' failed'')] @
                 (if int attempt < retry_attempts - 1 then [Sleep (2 ^ attempt)] else []) @
                 evs))
      else (Inr True, [WebhookRequest attempt, Log INFO (''Webhook sent for alert '' @ aid)]))"

definition webhook_send :: "pylib \<Rightarrow> channels \<Rightarrow> webhook_notifier \<Rightarrow> alert \<Rightarrow> send_result" where
  "webhook_send L env n a =
     (if \<not> w_enabled n \<or> w_url n = [] then (Inr True, [])
      else
        (case create_payload L n a of
           Some e \<Rightarrow> (Inl e, [])
         | None \<Rightarrow>
             webhook_attempts (webhook_reply env) (alert_id a) (w_retry_attempts n)
               [0..<nat (w_retry_attempts n)]))"

subsection \<open>GrafanaNotifier\<close>

text \<open>
  URL, dashboard and tags only shape the annotation. Everything after the \<open>enabled\<close>
  test stands in one \<open>try\<close> block whose handler catches every exception, logs a
  warning and returns \<open>False\<close>; the request is made only when an API key is set.
\<close>

record grafana_config =
  gc_enabled :: "bool option"
  gc_api_key :: "string option"

record grafana_notifier =
  g_enabled :: bool
  g_api_key :: string

definition GrafanaNotifier_init :: "grafana_config \<Rightarrow> grafana_notifier" where
  "GrafanaNotifier_init config =
     \<lparr> g_enabled = (case gc_enabled config of None \<Rightarrow> True | Some b \<Rightarrow> b),
       g_api_key = (case gc_api_key config of None \<Rightarrow> [] | Some k \<Rightarrow> k) \<rparr>"

definition grafana_send :: "pylib \<Rightarrow> channels \<Rightarrow> grafana_notifier \<Rightarrow> alert \<Rightarrow> send_result" where
  "grafana_send L env n a =
     (if \<not> g_enabled n then (Inr True, [])
      else
        (case datetime_fromisoformat L (timestamp a) of
           Inl e \<Rightarrow> (Inr False, [Log WARNING ''Grafana notification failed''])
         | Inr t \<Rightarrow>
             if g_api_key n \<noteq> [] then
               (case grafana_reply env of
                  Status s \<Rightarrow>
                    if raise_for_status s
                    then (Inr False, [GrafanaRequest, Log WARNING ''Grafana notification failed''])
                    else (Inr True,
                          [GrafanaRequest,
                           Log INFO (''Grafana annotation created for alert '' @ alert_id a)])
                | _ \<Rightarrow> (Inr False, [GrafanaRequest, Log WARNING ''Grafana notification failed'']))
             else (Inr True, [Log INFO (''Grafana annotation created for alert '' @ alert_id a)])))"

section \<open>NotificationDispatcher\<close>

text \<open>The \<open>notifications\<close> section of the configuration: a channel's section or its absence.\<close>

record notifications_config =
  console_section :: "console_config option"
  logfile_section :: "logfile_config option"
  email_section :: "email_config option"
  webhook_section :: "webhook_config option"
  grafana_section :: "grafana_config option"

datatype handler =
    ConsoleHandler console_notifier
  | LogFileHandler logfile_notifier
  | EmailHandler email_notifier
  | WebhookHandler webhook_notifier
  | GrafanaHandler grafana_notifier

text \<open>\<open>__init__\<close>: one handler for each section present, in this order.\<close>

definition NotificationDispatcher_init :: "notifications_config \<Rightarrow> handler list" where
  "NotificationDispatcher_init config =
     (case console_section config of None \<Rightarrow> [] | Some c \<Rightarrow> [ConsoleHandler (ConsoleNotifier_init c)]) @
     (case logfile_section config of None \<Rightarrow> [] | Some c \<Rightarrow> [LogFileHandler (LogFileNotifier_init c)]) @
     (case email_section config of None \<Rightarrow> [] | Some c \<Rightarrow> [EmailHandler (EmailNotifier_init c)]) @
     (case webhook_section config of None \<Rightarrow> [] | Some c \<Rightarrow> [WebhookHandler (WebhookNotifier_init c)]) @
     (case grafana_section config of None \<Rightarrow> [] | Some c \<Rightarrow> [GrafanaHandler (GrafanaNotifier_init c)])"

text \<open>\<open>handler.send(alert)\<close>, by the class of the handler.\<close>

fun handler_send :: "pylib \<Rightarrow> channels \<Rightarrow> handler \<Rightarrow> alert \<Rightarrow> send_result" where
  "handler_send L env (ConsoleHandler n) a = console_send L env n a"
| "handler_send L env (LogFileHandler n) a = logfile_send env n a"
| "handler_send L env (EmailHandler n) a = email_send L env n a"
| "handler_send L env (WebhookHandler n) a = webhook_send L env n a"
| "handler_send L env (GrafanaHandler n) a = grafana_send L env n a"

text \<open>
  The result of \<open>send_alert\<close>: the value it returns, the trace of its calls of
  \<open>handler.send\<close> (what each returned or raised, in order) and the events.
\<close>

record dispatch =
  dr_success :: bool
  dr_calls :: "(py_exception + bool) list"
  dr_events :: "event list"

text \<open>
  The loop of \<open>send_alert\<close> over the handlers, with the running \<open>success_count\<close>: a
  call that returns \<open>True\<close> counts, one that returns \<open>False\<close> does not, one that raises
  is caught and logged. It yields the final count, the calls and the events.
\<close>

fun send_loop ::
  "pylib \<Rightarrow> channels \<Rightarrow> alert \<Rightarrow> handler list \<Rightarrow> nat \<Rightarrow>
     nat \<times> (py_exception + bool) list \<times> event list" where
  "send_loop L env a [] success_count = (success_count, [], [])"
| "send_loop L env a (h # hs) success_count =
     (case handler_send L env h a of
        (Inr ok, evs) \<Rightarrow>
          (case send_loop L env a hs (if ok then success_count + 1 else success_count) of
             (c, calls, evs') \<Rightarrow> (c, Inr ok # calls, evs @ evs'))
      | (Inl e, evs) \<Rightarrow>
          (case send_loop L env a hs success_count of
             (c, calls, evs') \<Rightarrow>
               (c, Inl e # calls, evs @ [Log ERROR ''Notification handler failed''] @ evs')))"

definition send_alert :: "pylib \<Rightarrow> channels \<Rightarrow> handler list \<Rightarrow> alert \<Rightarrow> dispatch" where
  "send_alert L env handlers a =
     (case send_loop L env a handlers 0 of
        (success_count, calls, evs) \<Rightarrow>
          let total_handlers = length handlers;
              success = (0 < success_count)
          in \<lparr> dr_success = success,
               dr_calls = calls,
               dr_events = evs @
                 (if \<not> success then
                    [Log ERROR (''All notification handlers failed for alert '' @ alert_id a)]
                  else if success_count < total_handlers then
                    [Log WARNING (''Some notification handlers failed ('' @ str_nat success_count @
                       ''/'' @ str_nat total_handlers @ '')'')]
                  else []) \<rparr>)"

text \<open>The attempts and the sleeps among the events of a webhook delivery, in order.\<close>

fun requests_of :: "event list \<Rightarrow> nat list" where
  "requests_of [] = []"
| "requests_of (WebhookRequest k # evs) = k # requests_of evs"
| "requests_of (e # evs) = requests_of evs"

fun sleeps_of :: "event list \<Rightarrow> nat list" where
  "sleeps_of [] = []"
| "sleeps_of (Sleep s # evs) = s # sleeps_of evs"
| "sleeps_of (e # evs) = sleeps_of evs"

section \<open>Rules and the rule engine\<close>

text \<open>
  A rule of the \<open>rules\<close> section and the \<open>AlertRule\<close> built from it. The \<open>response\<close> and
  \<open>threshold\<close> settings are stored and never read by the engine; they are left out.
  \<open>compiled_pattern\<close> holds the pattern once \<open>re.compile\<close> accepted it.
\<close>

record rule_config =
  rc_enabled :: "bool option"
  rc_severity :: "string option"
  rc_pattern :: "string option"
  rc_description :: "string option"
  rc_category :: "string option"
  rc_context_fields :: "string list option"

record alert_rule =
  r_name :: string
  r_enabled :: bool
  r_severity :: string
  r_pattern :: "string option"
  r_description :: string
  r_category :: string
  r_context_fields :: "string list"
  compiled_pattern :: "string option"

text \<open>
  \<open>_load_rules\<close>: disabled rules are skipped; a rule whose pattern is set and not empty is
  compiled, and skipped when \<open>re.compile\<close> rejects the pattern.
\<close>

fun load_rules :: "pylib \<Rightarrow> (string \<times> rule_config) list \<Rightarrow> alert_rule list" where
  "load_rules L [] = []"
| "load_rules L ((name, rule_config) # rest) =
     (if \<not> (case rc_enabled rule_config of None \<Rightarrow> True | Some b \<Rightarrow> b) then load_rules L rest
      else
        let rule =
          \<lparr> r_name = name,
            r_enabled = (case rc_enabled rule_config of None \<Rightarrow> True | Some b \<Rightarrow> b),
            r_severity = (case rc_severity rule_config of None \<Rightarrow> ''MEDIUM'' | Some s \<Rightarrow> s),
            r_pattern = rc_pattern rule_config,
            r_description = (case rc_description rule_config of None \<Rightarrow> [] | Some s \<Rightarrow> s),
            r_category = (case rc_category rule_config of None \<Rightarrow> ''general'' | Some s \<Rightarrow> s),
            r_context_fields = (case rc_context_fields rule_config of None \<Rightarrow> [] | Some fs \<Rightarrow> fs),
            compiled_pattern = None \<rparr>
        in
          (case r_pattern rule of
             None \<Rightarrow> rule # load_rules L rest
           | Some p \<Rightarrow>
               if p = [] then rule # load_rules L rest
               else if pattern_compiles L p then rule\<lparr>compiled_pattern := Some p\<rparr> # load_rules L rest
               else load_rules L rest))"

text \<open>
  The clock while one log record is processed: the wall-clock reading of the naive
  datetime that \<open>datetime.now()\<close> returns, and what \<open>int(time.time())\<close> returns, in
  seconds.
\<close>

record clock =
  dt_now :: int
  epoch_now :: int

text \<open>\<open>field.split('.')\<close>.\<close>

fun split_dots :: "string \<Rightarrow> string list" where
  "split_dots [] = [[]]"
| "split_dots (c # cs) =
     (if c = CHR ''.'' then [] # split_dots cs
      else (case split_dots cs of [] \<Rightarrow> [[c]] | w # ws \<Rightarrow> (c # w) # ws))"

text \<open>
  The walk along a dotted path: \<open>value.get(key, '')\<close> on a dictionary and the empty string
  on anything else, stopping at the first falsy value.
\<close>

fun walk_keys :: "json \<Rightarrow> string list \<Rightarrow> json" where
  "walk_keys v [] = v"
| "walk_keys v (key # keys) =
     (let v' = (case v of JObj d \<Rightarrow> dict_get d key (JStr []) | _ \<Rightarrow> JStr [])
      in if \<not> truthy v' then v' else walk_keys v' keys)"

definition context_value :: "pydict \<Rightarrow> string \<Rightarrow> json" where
  "context_value log_entry field =
     (if CHR ''.'' \<in> set field then walk_keys (JObj log_entry) (split_dots field)
      else dict_get log_entry field (JStr []))"

text \<open>
  \<open>SecurityAlertEngine._generate_alert_id\<close>: the string that is hashed, and the id.
\<close>

definition engine_alert_content :: "pylib \<Rightarrow> string \<Rightarrow> pydict \<Rightarrow> string" where
  "engine_alert_content L rn log_entry =
     rn @ ''_'' @ py_str L (dict_get log_entry ''session_id'' (JStr [])) @ ''_'' @
     py_str L (dict_get log_entry ''timestamp'' (JStr []))"

definition engine_generate_alert_id :: "pylib \<Rightarrow> string \<Rightarrow> pydict \<Rightarrow> string" where
  "engine_generate_alert_id L rn log_entry =
     take 12 (md5_hexdigest L (engine_alert_content L rn log_entry))"

text \<open>\<open>_check_pattern_rule\<close>: the alert, or \<open>None\<close>.\<close>

definition check_pattern_rule :: "pylib \<Rightarrow> clock \<Rightarrow> alert_rule \<Rightarrow> pydict \<Rightarrow> alert option" where
  "check_pattern_rule L clk rule log_entry =
     (case compiled_pattern rule of
        None \<Rightarrow> None
      | Some p \<Rightarrow>
          if pattern_search L p log_entry then
            let timestamp_str = dict_get log_entry ''timestamp'' (JStr []) in
            Some \<lparr> alert_id = engine_generate_alert_id L (r_name rule) log_entry,
                   rule_name = r_name rule,
                   severity = r_severity rule,
                   description = r_description rule,
                   category = r_category rule,
                   timestamp =
                     (if \<not> truthy timestamp_str then JStr (isoformat L (Naive (dt_now clk)))
                      else timestamp_str),
                   session_id = dict_get log_entry ''session_id'' (JStr ''unknown''),
                   alert_context =
                     map (\<lambda>field. (field, context_value log_entry field)) (r_context_fields rule),
                   raw_log = log_entry,
                   escalation_count = 0 \<rparr>
          else None)"

section \<open>BehavioralAnalyzer\<close>

text \<open>
  The state of one session, and the analyzer's \<open>defaultdict\<close> of them: a session never
  seen reads as the initial state. A list or a dictionary cannot be a key.
\<close>

record session_stats =
  operations :: "datetime list"
  scope_violations :: int
  start_time :: "datetime option"

type_synonym analyzer = "json \<Rightarrow> session_stats"

definition BehavioralAnalyzer_init :: analyzer where
  "BehavioralAnalyzer_init = (\<lambda>sid. \<lparr> operations = [], scope_violations = 0, start_time = None \<rparr>)"

fun hashable :: "json \<Rightarrow> bool" where
  "hashable (JList xs) = False"
| "hashable (JObj kvs) = False"
| "hashable v = True"

text \<open>
  \<open>BehavioralAnalyzer._generate_alert_id\<close>: the string that is hashed, and the id.
\<close>

definition analyzer_alert_content :: "pylib \<Rightarrow> clock \<Rightarrow> string \<Rightarrow> json \<Rightarrow> string" where
  "analyzer_alert_content L clk rule_type sid =
     rule_type @ ''_'' @ py_str L sid @ ''_'' @ str_int (epoch_now clk)"

definition analyzer_generate_alert_id :: "pylib \<Rightarrow> clock \<Rightarrow> string \<Rightarrow> json \<Rightarrow> string" where
  "analyzer_generate_alert_id L clk rule_type sid =
     take 12 (md5_hexdigest L (analyzer_alert_content L clk rule_type sid))"

text \<open>
  The timestamp of a record as \<open>analyze_session\<close> reads it: the current time when the
  field is missing or falsy or \<open>datetime.fromisoformat\<close> raises \<open>ValueError\<close>; any other
  exception of the parse (a \<open>TypeError\<close> for a value that is not a string) is not caught.
\<close>

definition record_timestamp :: "pylib \<Rightarrow> clock \<Rightarrow> pydict \<Rightarrow> py_exception + datetime" where
  "record_timestamp L clk log_entry =
     (let timestamp_str = dict_get log_entry ''timestamp'' (JStr []) in
      if \<not> truthy timestamp_str then Inr (Naive (dt_now clk))
      else
        (case datetime_fromisoformat L timestamp_str of
           Inl ValueError \<Rightarrow> Inr (Naive (dt_now clk))
         | Inl e \<Rightarrow> Inl e
         | Inr t \<Rightarrow> Inr t))"

definition high_frequency_alert ::
  "pylib \<Rightarrow> clock \<Rightarrow> json \<Rightarrow> pydict \<Rightarrow> datetime \<Rightarrow> nat \<Rightarrow> alert" where
  "high_frequency_alert L clk sid log_entry ts n =
     \<lparr> alert_id = analyzer_generate_alert_id L clk ''high_frequency'' sid,
       rule_name = ''high_frequency_operations'',
       severity = ''MEDIUM'',
       description = ''Unusually high frequency of operations detected'',
       category = ''behavioral_anomaly'',
       timestamp = JStr (isoformat L ts),
       session_id = sid,
       alert_context =
         [(''operation_count'', JInt (int n)),
          (''time_window'', JStr ''5 minutes''),
          (''operations_per_minute'', JRatio (int n) 5)],
       raw_log = log_entry,
       escalation_count = 0 \<rparr>"

text \<open>The alert of the second detector; \<open>duration\<close> is \<open>timestamp - stats['start_time']\<close>.\<close>

definition repeated_scope_alert ::
  "pylib \<Rightarrow> clock \<Rightarrow> json \<Rightarrow> pydict \<Rightarrow> datetime \<Rightarrow> int \<Rightarrow> int \<Rightarrow> alert" where
  "repeated_scope_alert L clk sid log_entry ts violations duration =
     \<lparr> alert_id = analyzer_generate_alert_id L clk ''repeated_scope'' sid,
       rule_name = ''repeated_scope_violations'',
       severity = ''HIGH'',
       description = ''Multiple scope violations in session'',
       category = ''behavioral_anomaly'',
       timestamp = JStr (isoformat L ts),
       session_id = sid,
       alert_context =
         [(''violation_count'', JInt violations),
          (''session_duration'', JStr (str_timedelta L duration))],
       raw_log = log_entry,
       escalation_count = 0 \<rparr>"

text \<open>
  A comprehension \<open>[ts for ts in xs if ts > bound]\<close>, where the expression \<open>bound\<close> is
  evaluated for every element: the list, or the first exception of the bound or of a
  comparison.
\<close>

fun select_after :: "(py_exception + datetime) \<Rightarrow> datetime list \<Rightarrow> py_exception + datetime list" where
  "select_after bound [] = Inr []"
| "select_after bound (t # rest) =
     (case bound of
        Inl e \<Rightarrow> Inl e
      | Inr b \<Rightarrow>
          (case dt_less b t of
             Inl e \<Rightarrow> Inl e
           | Inr keep \<Rightarrow>
               (case select_after bound rest of
                  Inl e \<Rightarrow> Inl e
                | Inr kept \<Rightarrow> Inr (if keep then t # kept else kept))))"

text \<open>
  \<open>analyze_session\<close> returns the analyzer as the call leaves it, with the alerts or the
  exception raised. The session state is written as the source writes it, statement by
  statement: the start time and the appended timestamp stay written when the cutoff
  overflows or a comparison of the first comprehension raises \<open>TypeError\<close>; the trimmed
  operations stay written when \<open>log_entry.get('action_details', {}).get(...)\<close> raises
  \<open>AttributeError\<close> on an \<open>action_details\<close> that is not a dictionary; the incremented
  counter stays written when \<open>timestamp - stats['start_time']\<close> raises \<open>TypeError\<close>.
\<close>

definition analyze_session ::
  "pylib \<Rightarrow> clock \<Rightarrow> analyzer \<Rightarrow> json \<Rightarrow> pydict \<Rightarrow> analyzer \<times> (py_exception + alert list)" where
  "analyze_session L clk st sid log_entry =
     (if \<not> hashable sid then (st, Inl TypeError)
      else
        let stats = st sid in
        case record_timestamp L clk log_entry of
          Inl e \<Rightarrow> (st, Inl e)
        | Inr ts \<Rightarrow>
            let started = (case start_time stats of None \<Rightarrow> ts | Some s \<Rightarrow> s);
                stats0 = stats\<lparr>operations := operations stats @ [ts], start_time := Some started\<rparr>
            in
              (case dt_minus ts (timedelta_hours 1) of
                 Inl e \<Rightarrow> (st(sid := stats0), Inl e)
               | Inr cutoff \<Rightarrow>
                   (case select_after (Inr cutoff) (operations stats0) of
                      Inl e \<Rightarrow> (st(sid := stats0), Inl e)
                    | Inr ops \<Rightarrow>
                        let stats1 = stats0\<lparr>operations := ops\<rparr> in
                        (case select_after (dt_minus ts (timedelta_minutes 5)) ops of
                           Inl e \<Rightarrow> (st(sid := stats1), Inl e)
                         | Inr recent_ops \<Rightarrow>
                             let alerts1 =
                               (if 20 < length recent_ops
                                then [high_frequency_alert L clk sid log_entry ts (length recent_ops)]
                                else [])
                             in
                               (case dict_get log_entry ''action_details'' (JObj []) of
                                  JObj details \<Rightarrow>
                                    if truthy (dict_get details ''outside_project_scope'' JNull) then
                                      let violations = scope_violations stats + 1;
                                          stats2 = stats1\<lparr>scope_violations := violations\<rparr>
                                      in
                                        if 3 \<le> violations then
                                          (case dt_diff ts started of
                                             Inl e \<Rightarrow> (st(sid := stats2), Inl e)
                                           | Inr duration \<Rightarrow>
                                               (st(sid := stats2),
                                                Inr (alerts1 @
                                                     [repeated_scope_alert L clk sid log_entry ts
                                                        violations duration])))
                                        else (st(sid := stats2), Inr alerts1)
                                    else (st(sid := stats1), Inr alerts1)
                                | _ \<Rightarrow> (st(sid := stats1), Inl AttributeError))))))"




section \<open>LokiClient and SecurityAlertEngine\<close>

text \<open>
  What the range query does: the log source answers and the records are extracted
  (\<open>Entries\<close>, the records as \<open>query_range\<close> builds them); the request, the status check
  or the JSON decoding raises a \<open>requests.RequestException\<close> (\<open>QueryFailed\<close>: log source
  unreachable, timeout, error status); or the extraction raises something else
  (\<open>QueryBroken\<close>: a response of an unexpected shape).
\<close>

datatype loki_reply = Entries "pydict list" | QueryFailed | QueryBroken

text \<open>
  The outside world during one cycle: the outcome of the readiness probe, the outcome of
  the range query, \<open>datetime.now()\<close> at the start of \<open>process_logs\<close>, the clock while the
  \<open>k\<close>-th record is processed, and the channels while the \<open>k\<close>-th alert is handled.
\<close>

record world =
  loki_ready :: http_outcome
  loki_reply :: loki_reply
  poll_now :: int
  entry_clock :: "nat \<Rightarrow> clock"
  delivery :: "nat \<Rightarrow> channels"

text \<open>
  The engine's state. \<open>max_consecutive_errors\<close> is
  \<open>config['reliability']['max_consecutive_errors']\<close> where the configuration sets it;
  \<open>notifier\<close> is \<open>None\<close> when the import of the dispatcher failed at construction.
\<close>

record engine =
  rules :: "alert_rule list"
  deduplicator :: alert_deduplicator
  behavioral_analyzer :: analyzer
  last_check_time :: int
  alert_count :: int
  error_count :: int
  max_consecutive_errors :: "int option"
  notifier :: "handler list option"

text \<open>\<open>LokiClient.health_check\<close>: status 200 is healthy, a \<open>RequestException\<close> is not.\<close>

definition health_check :: "http_outcome \<Rightarrow> py_exception + bool" where
  "health_check outcome =
     (case outcome of
        Status s \<Rightarrow> Inr (s = 200)
      | RequestFailed \<Rightarrow> Inr False
      | OtherFailure \<Rightarrow> Inl OtherException)"

text \<open>
  \<open>LokiClient.query_range\<close>: a \<open>RequestException\<close> is caught and logged, and the empty
  list is returned.
\<close>

definition query_range :: "loki_reply \<Rightarrow> (py_exception + pydict list) \<times> event list" where
  "query_range r =
     (case r of
        Entries logs \<Rightarrow> (Inr logs, [])
      | QueryFailed \<Rightarrow> (Inr [], [Log ERROR ''Loki query failed''])
      | QueryBroken \<Rightarrow> (Inl OtherException, []))"

definition check_health :: "world \<Rightarrow> engine \<Rightarrow> (py_exception + bool) \<times> event list" where
  "check_health w eng =
     (case health_check (loki_ready w) of
        Inl e \<Rightarrow> (Inl e, [LokiProbe])
      | Inr False \<Rightarrow> (Inr False, [LokiProbe, Log ERROR ''Loki health check failed''])
      | Inr True \<Rightarrow>
          let max_errors = (case max_consecutive_errors eng of None \<Rightarrow> 5 | Some m \<Rightarrow> m) in
          if max_errors \<le> error_count eng then
            (Inr False,
             [LokiProbe,
              Log ERROR (''Too many consecutive errors: '' @ str_int (error_count eng))])
          else (Inr True, [LokiProbe]))"

text \<open>
  The loop of \<open>process_logs\<close> over the records, \<open>k\<close> being the index of the next record:
  the analyzer at the end, the alerts collected, and the exception that ended the loop,
  if any. The alerts collected before an exception stay in the list that
  \<open>process_logs\<close> returns.
\<close>

fun process_entries ::
  "pylib \<Rightarrow> (nat \<Rightarrow> clock) \<Rightarrow> alert_rule list \<Rightarrow> analyzer \<Rightarrow> nat \<Rightarrow> pydict list \<Rightarrow>
     analyzer \<times> alert list \<times> py_exception option" where
  "process_entries L clk rs st k [] = (st, [], None)"
| "process_entries L clk rs st k (log_entry # rest) =
     (let pattern_alerts = List.map_filter (\<lambda>rule. check_pattern_rule L (clk k) rule log_entry) rs;
          sid = dict_get log_entry ''session_id'' (JStr ''unknown'')
      in
        case analyze_session L (clk k) st sid log_entry of
          (st', Inl e) \<Rightarrow> (st', pattern_alerts, Some e)
        | (st', Inr behavioral_alerts) \<Rightarrow>
            (case process_entries L clk rs st' (Suc k) rest of
               (st'', alerts, err) \<Rightarrow> (st'', pattern_alerts @ behavioral_alerts @ alerts, err)))"

text \<open>
  \<open>process_logs\<close>: the engine after the call, the alerts and the events. The cursor
  advances and the error counter is reset at the end of the \<open>try\<close> block; the handler
  of the block increments the counter.
\<close>

definition process_logs :: "pylib \<Rightarrow> world \<Rightarrow> engine \<Rightarrow> engine \<times> alert list \<times> event list" where
  "process_logs L w eng =
     (let end_time = poll_now w;
          q = LokiQuery (last_check_time eng) end_time
      in
        case query_range (loki_reply w) of
          (Inl e, evs) \<Rightarrow>
            (eng\<lparr>error_count := error_count eng + 1\<rparr>, [],
             q # evs @ [Log ERROR ''Error processing logs''])
        | (Inr logs, evs) \<Rightarrow>
            (case process_entries L (entry_clock w) (rules eng) (behavioral_analyzer eng) 0 logs of
               (st, alerts, Some e) \<Rightarrow>
                 (eng\<lparr>behavioral_analyzer := st, error_count := error_count eng + 1\<rparr>, alerts,
                  q # evs @ [Log ERROR ''Error processing logs''])
             | (st, alerts, None) \<Rightarrow>
                 (eng\<lparr>behavioral_analyzer := st, last_check_time := end_time, error_count := 0\<rparr>,
                  alerts, q # evs)))"

text \<open>
  The loop of \<open>run_once\<close> over the alerts, \<open>k\<close> being the index of the next alert and
  \<open>sent\<close> the running \<open>sent_alerts\<close>. \<open>should_alert\<close> is called outside the \<open>try\<close> block, so
  its exception ends the loop and leaves \<open>run_once\<close>; the \<open>try\<close> block holds the
  dispatch (or, without a notifier, the \<open>print\<close>) and the counting.
\<close>

fun deliver ::
  "pylib \<Rightarrow> (nat \<Rightarrow> channels) \<Rightarrow> engine \<Rightarrow> nat \<Rightarrow> nat \<Rightarrow> alert list \<Rightarrow>
     engine \<times> nat \<times> py_exception option \<times> event list" where
  "deliver L ch eng k sent [] = (eng, sent, None, [])"
| "deliver L ch eng k sent (a # rest) =
     (case should_alert L (deduplicator eng) a of
        (Inl e, d) \<Rightarrow> (eng\<lparr>deduplicator := d\<rparr>, sent, Some e, [])
      | (Inr False, d) \<Rightarrow> deliver L ch (eng\<lparr>deduplicator := d\<rparr>) (Suc k) sent rest
      | (Inr True, d) \<Rightarrow>
          (case notifier eng of
             Some handlers \<Rightarrow>
               (case deliver L ch (eng\<lparr>deduplicator := d, alert_count := alert_count eng + 1\<rparr>)
                       (Suc k) (Suc sent) rest of
                  (eng', sent', err, evs) \<Rightarrow>
                    (eng', sent', err,
                     dr_events (send_alert L (ch k) handlers a) @
                     [Log INFO (''Alert sent: '' @ rule_name a @ '' - '' @ description a)] @ evs))
           | None \<Rightarrow>
               if stdout_ok (ch k) then
                 (case deliver L ch (eng\<lparr>deduplicator := d, alert_count := alert_count eng + 1\<rparr>)
                         (Suc k) (Suc sent) rest of
                    (eng', sent', err, evs) \<Rightarrow>
                      (eng', sent', err,
                       [ConsolePrint a,
                        Log INFO (''Alert sent: '' @ rule_name a @ '' - '' @ description a)] @ evs))
               else
                 (case deliver L ch (eng\<lparr>deduplicator := d\<rparr>) (Suc k) sent rest of
                    (eng', sent', err, evs) \<Rightarrow>
                      (eng', sent', err, Log ERROR ''Failed to send alert'' # evs))))"

text \<open>
  \<open>run_once\<close>: the engine after the cycle, the status returned or the exception raised,
  and the events.
\<close>

definition run_once :: "pylib \<Rightarrow> world \<Rightarrow> engine \<Rightarrow> engine \<times> (py_exception + int) \<times> event list" where
  "run_once L w eng =
     (case check_health w eng of
        (Inl e, evs) \<Rightarrow> (eng, Inl e, evs)
      | (Inr False, evs) \<Rightarrow> (eng, Inr 1, evs)
      | (Inr True, evs) \<Rightarrow>
          (case process_logs L w eng of
             (eng1, alerts, evs1) \<Rightarrow>
               (case deliver L (delivery w) eng1 0 0 alerts of
                  (eng2, sent, Some e, evs2) \<Rightarrow> (eng2, Inl e, evs @ evs1 @ evs2)
                | (eng2, sent, None, evs2) \<Rightarrow>
                    (eng2, Inr 0,
                     evs @ evs1 @ evs2 @
                     (if alerts \<noteq> [] then
                        [Log INFO (''Processed '' @ str_nat (length alerts) @ '' alerts, sent '' @
                           str_nat sent)]
                      else [])))))"

text \<open>The range queries among the events.\<close>

fun queries_of :: "event list \<Rightarrow> (int \<times> int) list" where
  "queries_of [] = []"
| "queries_of (LokiQuery s e # evs) = (s, e) # queries_of evs"
| "queries_of (ev # evs) = queries_of evs"

section \<open>Concrete instances\<close>

text \<open>
  A library instance for the concrete runs below. It knows the ISO timestamps listed
  here, each with the naive datetime \<open>datetime.fromisoformat\<close> gives it, rejects every
  other string as \<open>datetime.fromisoformat\<close> rejects \<open>not-a-timestamp\<close>, knows the MD5 digests of the strings listed, as
  \<open>hashlib.md5\<close> computes them, matches the pattern \<open>.*\<close> against every record, and
  raises \<open>KeyError\<close> for the payload template \<open>{missing}\<close>, which names no field of an
  alert.
\<close>

definition example_digests :: "(string \<times> string) list" where
  "example_digests =
     [(''repeated_scope_s1_1704067800'', ''289a3e285da516b164231732c2a4eef9''),
      (''repeated_scope_s1_1704067801'', ''46c88f92d5d016e7558d35d974861c9c''),
      (''repeated_scope_violations_s1_2024-01-01T00:10:00'', ''b1553a606b3c934d3c0076e8a16556de''),
      (''dangerous_command_s1_not-a-timestamp'', ''9f8fadd16e818c138667ed7b8f875ae5''),
      (''dangerous_command_s1_2024-01-01T00:10:00'', ''1399b5f021a687e06d2945d4f76e8f2a''),
      (''high_frequency_s1_1704067800'', ''0779066223eeb13b33d213453ebc6374'')]"

definition example_instants :: "(string \<times> datetime) list" where
  "example_instants =
     [(''2024-01-01T00:10:00'', Naive 600000000),
      (''2024-01-01T00:11:00'', Naive 660000000),
      (''2024-01-01T00:12:00'', Naive 720000000),
      (''2024-01-01T01:40:00'', Naive 6000000000)]"

definition example_lib :: pylib where
  "example_lib =
     \<lparr> fromisoformat = map_of example_instants,
       isoformat = (\<lambda>t. case map_of (map (\<lambda>(s, i). (i, s)) example_instants) t of
                            Some s \<Rightarrow> s | None \<Rightarrow> []),
       str_timedelta = (\<lambda>d. []),
       repr_value = (\<lambda>v. []),
       md5_hexdigest = (\<lambda>s. case map_of example_digests s of Some h \<Rightarrow> h | None \<Rightarrow> []),
       other_attribute = (\<lambda>a name. None),
       pattern_search = (\<lambda>p r. p = ''.*''),
       pattern_compiles = (\<lambda>p. True),
       render_template = (\<lambda>t a. if t = ''{missing}'' then Some KeyError else None) \<rparr>"

definition example_alert :: "string \<Rightarrow> alert" where
  "example_alert ts =
     \<lparr> alert_id = ''0123456789ab'', rule_name = ''dangerous_command'', severity = ''HIGH'',
       description = ''Dangerous command'', category = ''security'', timestamp = JStr ts,
       session_id = JStr ''s1'', alert_context = [], raw_log = [], escalation_count = 0 \<rparr>"

text \<open>A deduplicator with the default window and key fields and a budget of two.\<close>

definition example_dedup :: alert_deduplicator where
  "example_dedup =
     AlertDeduplicator_init
       \<lparr> cfg_enabled = None, cfg_window_minutes = None, cfg_key_fields = None,
         cfg_max_occurrences = Some 2 \<rparr>"

text \<open>
  A notifications configuration with a console section (all defaults), a webhook with a
  payload template that does not render, and Grafana with an API key.
\<close>

definition example_notifications :: notifications_config where
  "example_notifications =
     \<lparr> console_section =
         Some \<lparr> cc_enabled = None, cc_min_severity = None, cc_format = None, cc_colors = None \<rparr>,
       logfile_section = None,
       email_section = None,
       webhook_section =
         Some \<lparr> wc_enabled = Some True, wc_url = Some ''http://hooks.example/alert'',
                wc_retry_attempts = None, wc_payload_template = Some ''{missing}'' \<rparr>,
       grafana_section = Some \<lparr> gc_enabled = None, gc_api_key = Some ''key'' \<rparr> \<rparr>"

text \<open>A configuration whose only channel is Grafana, with an API key.\<close>

definition grafana_only :: notifications_config where
  "grafana_only =
     \<lparr> console_section = None, logfile_section = None, email_section = None,
       webhook_section = None,
       grafana_section = Some \<lparr> gc_enabled = None, gc_api_key = Some ''key'' \<rparr> \<rparr>"

text \<open>
  A configuration with a disabled console and a mail channel without recipients, and one
  whose console shows critical alerts only.
\<close>

definition critical_only_notifications :: notifications_config where
  "critical_only_notifications =
     \<lparr> console_section =
         Some \<lparr> cc_enabled = None, cc_min_severity = Some ''CRITICAL'', cc_format = None,
                cc_colors = None \<rparr>,
       logfile_section = None, email_section = None, webhook_section = None,
       grafana_section = None \<rparr>"

definition silent_notifications :: notifications_config where
  "silent_notifications =
     \<lparr> console_section =
         Some \<lparr> cc_enabled = Some False, cc_min_severity = None, cc_format = None,
                cc_colors = None \<rparr>,
       logfile_section = None,
       email_section = Some \<lparr> ec_enabled = Some True, ec_recipients = None \<rparr>,
       webhook_section = None,
       grafana_section = None \<rparr>"

definition no_notifications :: notifications_config where
  "no_notifications =
     \<lparr> console_section = None, logfile_section = None, email_section = None,
       webhook_section = None, grafana_section = None \<rparr>"

text \<open>An outside world where everything works, with the given webhook and Grafana outcomes.\<close>

definition example_channels :: "(nat \<Rightarrow> http_outcome) \<Rightarrow> http_outcome \<Rightarrow> channels" where
  "example_channels wr gr =
     \<lparr> stdout_ok = True, logfile_ok = True, smtp_ok = True, webhook_reply = wr,
       grafana_reply = gr \<rparr>"

text \<open>A webhook with three attempts and no payload template.\<close>

definition example_webhook :: webhook_notifier where
  "example_webhook =
     WebhookNotifier_init
       \<lparr> wc_enabled = Some True, wc_url = Some ''http://hooks.example/alert'',
         wc_retry_attempts = Some 3, wc_payload_template = None \<rparr>"

text \<open>
  An engine with one pattern rule that matches every record, the deduplicator above, no
  notifier (alerts are printed), two consecutive errors on its counter and its cursor
  at instant 0.
\<close>

definition example_rules :: "(string \<times> rule_config) list" where
  "example_rules =
     [(''dangerous_command'',
       \<lparr> rc_enabled = None, rc_severity = Some ''HIGH'', rc_pattern = Some ''.*'',
         rc_description = Some ''Dangerous command'', rc_category = Some ''security'',
         rc_context_fields = None \<rparr>)]"

definition example_engine :: engine where
  "example_engine =
     \<lparr> rules = load_rules example_lib example_rules,
       deduplicator = example_dedup,
       behavioral_analyzer = BehavioralAnalyzer_init,
       last_check_time = 0,
       alert_count = 0,
       error_count = 2,
       max_consecutive_errors = None,
       notifier = None \<rparr>"

text \<open>
  A cycle that starts at 00:10:00 (epoch second 1704067800), with the given outcomes of
  the readiness probe and the range query.
\<close>

definition example_world :: "http_outcome \<Rightarrow> loki_reply \<Rightarrow> world" where
  "example_world probe r =
     \<lparr> loki_ready = probe,
       loki_reply = r,
       poll_now = 600000000,
       entry_clock = (\<lambda>k. \<lparr> dt_now = 600000000, epoch_now = 1704067800 \<rparr>),
       delivery = (\<lambda>k. example_channels (\<lambda>j. Status 200) (Status 200)) \<rparr>"

text \<open>A record whose timestamp is not an ISO timestamp.\<close>

definition malformed_entry :: pydict where
  "malformed_entry =
     [(''timestamp'', JStr ''not-a-timestamp''),
      (''session_id'', JStr ''s1''),
      (''action_details'', JObj [(''command'', JStr ''rm -rf /'')])]"

text \<open>
  Records of session \<open>s1\<close>: one that signals an out-of-scope action and one that does
  not, each paired with the clock of the example cycle.
\<close>

definition scope_entry :: "clock \<times> pydict" where
  "scope_entry =
     (\<lparr> dt_now = 600000000, epoch_now = 1704067800 \<rparr>,
      [(''timestamp'', JStr ''2024-01-01T00:10:00''),
       (''session_id'', JStr ''s1''),
       (''action_details'', JObj [(''outside_project_scope'', JBool True)])])"


text \<open>An analyzer that has counted two scope violations in session \<open>s1\<close>.\<close>

definition two_violations :: analyzer where
  "two_violations =
     BehavioralAnalyzer_init
       (JStr ''s1'' :=
          \<lparr> operations = [Naive 600000000], scope_violations = 2,
            start_time = Some (Naive 600000000) \<rparr>)"

text \<open>The rule that \<open>load_rules\<close> builds from \<open>example_rules\<close>.\<close>

definition example_rule :: alert_rule where
  "example_rule =
     \<lparr> r_name = ''dangerous_command'', r_enabled = True, r_severity = ''HIGH'',
       r_pattern = Some ''.*'', r_description = ''Dangerous command'',
       r_category = ''security'', r_context_fields = [], compiled_pattern = Some ''.*'' \<rparr>"


section \<open>Decimal rendering\<close>

lemma str_nat_small: "n < 10 \<Longrightarrow> str_nat n = [digit_char n]"
  by (simp add: str_nat.simps)

section \<open>Properties of the deduplicator\<close>















section \<open>Properties of the dispatcher\<close>

lemma send_loop_eq:
  "send_loop L env a hs c =
     (c + length (filter (\<lambda>h. fst (handler_send L env h a) = Inr True) hs),
      map (\<lambda>h. fst (handler_send L env h a)) hs,
      concat (map (\<lambda>h. snd (handler_send L env h a) @
                   (if isl (fst (handler_send L env h a))
                    then [Log ERROR ''Notification handler failed''] else [])) hs))"
proof (induction hs arbitrary: c)
  case Nil
  show ?case by simp
next
  case (Cons h hs)
  obtain r evs where h: "handler_send L env h a = (r, evs)"
    by (cases "handler_send L env h a") auto
  show ?case
  proof (cases r)
    case (Inl e)
    with h show ?thesis by (simp add: Cons.IH)
  next
    case (Inr ok)
    with h show ?thesis by (cases ok) (simp_all add: Cons.IH)
  qed
qed

lemma send_loop_calls:
  "fst (snd (send_loop L env a hs c)) = map (\<lambda>h. fst (handler_send L env h a)) hs"
  by (simp add: send_loop_eq)

lemma send_loop_count:
  "fst (send_loop L env a hs c) =
     c + length (filter (\<lambda>h. fst (handler_send L env h a) = Inr True) hs)"
  by (simp add: send_loop_eq)

lemma send_loop_events:
  "snd (snd (send_loop L env a hs c)) =
     concat (map (\<lambda>h. snd (handler_send L env h a) @
                   (if isl (fst (handler_send L env h a))
                    then [Log ERROR ''Notification handler failed''] else [])) hs)"
  by (simp add: send_loop_eq)

lemma send_alert_success:
  "dr_success (send_alert L env hs a) = (\<exists>h\<in>set hs. fst (handler_send L env h a) = Inr True)"
proof -
  have "dr_success (send_alert L env hs a) = (0 < fst (send_loop L env a hs 0))"
    by (simp add: send_alert_def send_loop_eq Let_def)
  also have "\<dots> = (filter (\<lambda>h. fst (handler_send L env h a) = Inr True) hs \<noteq> [])"
    by (simp add: send_loop_count)
  also have "\<dots> = (\<exists>h\<in>set hs. fst (handler_send L env h a) = Inr True)"
    by (simp add: filter_empty_conv)
  finally show ?thesis .
qed

lemma send_alert_calls:
  "dr_calls (send_alert L env hs a) = map (\<lambda>h. fst (handler_send L env h a)) hs"
  by (simp add: send_alert_def send_loop_eq Let_def)

lemma send_alert_events:
  "dr_events (send_alert L env hs a) =
     concat (map (\<lambda>h. snd (handler_send L env h a) @
                   (if isl (fst (handler_send L env h a))
                    then [Log ERROR ''Notification handler failed''] else [])) hs) @
     (let n = length (filter (\<lambda>h. fst (handler_send L env h a) = Inr True) hs) in
      if n = 0 then [Log ERROR (''All notification handlers failed for alert '' @ alert_id a)]
      else if n < length hs then
        [Log WARNING (''Some notification handlers failed ('' @ str_nat n @ ''/'' @
           str_nat (length hs) @ '')'')]
      else [])"
  by (simp add: send_alert_def send_loop_eq Let_def)

lemma requests_of_append: "requests_of (xs @ ys) = requests_of xs @ requests_of ys"
  by (induction xs rule: requests_of.induct) auto

lemma sleeps_of_append: "sleeps_of (xs @ ys) = sleeps_of xs @ sleeps_of ys"
  by (induction xs rule: sleeps_of.induct) auto

lemma webhook_attempts_bound:
  "length (requests_of (snd (webhook_attempts reply aid N xs))) \<le> length xs"
  by (induction xs) (auto simp: requests_of_append split: prod.splits)

lemma webhook_attempts_exhausted:
  assumes "\<forall>j. i \<le> j \<and> j < n \<longrightarrow> request_raises (reply j)"
  shows "fst (webhook_attempts reply aid (int n) [i..<n]) = Inr False \<and>
         requests_of (snd (webhook_attempts reply aid (int n) [i..<n])) = [i..<n] \<and>
         sleeps_of (snd (webhook_attempts reply aid (int n) [i..<n])) = map (\<lambda>j. 2 ^ j) [i..<n - 1]"
  using assms
proof (induction "n - i" arbitrary: i)
  case 0
  then show ?case by simp
next
  case (Suc d)
  then have lt: "i < n" and d: "d = n - Suc i" by auto
  have list: "[i..<n] = i # [Suc i..<n]" using lt by (rule upt_conv_Cons)
  have raises: "request_raises (reply i)" using Suc.prems lt by simp
  then have notother: "reply i \<noteq> OtherFailure" by auto
  have rest: "\<forall>j. Suc i \<le> j \<and> j < n \<longrightarrow> request_raises (reply j)"
    using Suc.prems by simp
  obtain r evs where rec: "webhook_attempts reply aid (int n) [Suc i..<n] = (r, evs)"
    by (cases "webhook_attempts reply aid (int n) [Suc i..<n]") auto
  have IH: "r = Inr False" "requests_of evs = [Suc i..<n]"
    "sleeps_of evs = map (\<lambda>j. 2 ^ j) [Suc i..<n - 1]"
    using Suc.hyps(1) [OF d rest] by (simp_all add: rec)
  show ?case
  proof (cases "Suc i < n")
    case True
    then have "[i..<n - 1] = i # [Suc i..<n - 1]" by (intro upt_conv_Cons) simp
    with IH raises notother True show ?thesis
      by (simp add: list rec requests_of_append sleeps_of_append)
  next
    case False
    with lt have "n = Suc i" by simp
    with IH raises notother show ?thesis
      by (simp add: list rec requests_of_append sleeps_of_append)
  qed
qed

lemma webhook_attempts_delivered:
  assumes "i \<le> k" and "k < n"
    and "\<forall>j. i \<le> j \<and> j < k \<longrightarrow> request_raises (reply j)"
    and "reply k = Status s" and "\<not> raise_for_status s"
  shows "fst (webhook_attempts reply aid (int n) [i..<n]) = Inr True \<and>
         requests_of (snd (webhook_attempts reply aid (int n) [i..<n])) = [i..<Suc k] \<and>
         sleeps_of (snd (webhook_attempts reply aid (int n) [i..<n])) = map (\<lambda>j. 2 ^ j) [i..<k]"
  using assms
proof (induction "k - i" arbitrary: i)
  case 0
  then have ik: "i = k" by simp
  have list: "[k..<n] = k # [Suc k..<n]" using 0(3) by (rule upt_conv_Cons)
  show ?case using 0(5,6) by (simp add: ik list)
next
  case (Suc d)
  then have lt: "i < k" and d: "d = k - Suc i" by auto
  with Suc.prems have ltn: "i < n" by simp
  have list: "[i..<n] = i # [Suc i..<n]" using ltn by (rule upt_conv_Cons)
  have listk: "[i..<k] = i # [Suc i..<k]" using lt by (rule upt_conv_Cons)
  have listk': "[i..<Suc k] = i # [Suc i..<Suc k]" using lt by (intro upt_conv_Cons) simp
  have raises: "request_raises (reply i)" using Suc.prems lt by simp
  then have notother: "reply i \<noteq> OtherFailure" by auto
  have rest: "\<forall>j. Suc i \<le> j \<and> j < k \<longrightarrow> request_raises (reply j)"
    using Suc.prems by simp
  have "Suc i \<le> k" using lt by simp
  note IH0 = Suc.hyps(1) [OF d this Suc.prems(2) rest Suc.prems(4,5)]
  obtain r evs where rec: "webhook_attempts reply aid (int n) [Suc i..<n] = (r, evs)"
    by (cases "webhook_attempts reply aid (int n) [Suc i..<n]") auto
  have IH: "r = Inr True" "requests_of evs = [Suc i..<Suc k]"
    "sleeps_of evs = map (\<lambda>j. 2 ^ j) [Suc i..<k]"
    using IH0 by (simp_all add: rec del: upt_Suc)
  have sl: "int i < int n - 1" using lt Suc.prems(2) by simp
  show ?case
    using IH raises notother sl
    by (simp add: list listk listk' rec requests_of_append sleeps_of_append del: upt_Suc)
qed

lemmas dispatch_defs = NotificationDispatcher_init_def ConsoleNotifier_init_def
  LogFileNotifier_init_def EmailNotifier_init_def WebhookNotifier_init_def GrafanaNotifier_init_def
  console_send_def should_notify_def severity_levels_def logfile_send_def email_send_def
  get_recipients_def webhook_send_def create_payload_def grafana_send_def raise_for_status_def
  example_notifications_def grafana_only_def silent_notifications_def
  critical_only_notifications_def no_notifications_def
  example_channels_def example_webhook_def str_nat_small digit_char_def str_int_def

section \<open>Properties of the behavioral analyzer\<close>

text \<open>What a call of \<open>analyze_session\<close> that returns its alerts has gone through.\<close>

lemma analyze_session_normal:
  assumes run: "analyze_session L clk st sid e = (st', Inr alerts)"
  obtains ts cutoff ops recent details where
    "hashable sid"
    "record_timestamp L clk e = Inr ts"
    "dt_minus ts (timedelta_hours 1) = Inr cutoff"
    "select_after (Inr cutoff) (operations (st sid) @ [ts]) = Inr ops"
    "select_after (dt_minus ts (timedelta_minutes 5)) ops = Inr recent"
    "dict_get e ''action_details'' (JObj []) = JObj details"
proof -
  from run have h: "hashable sid"
    by (auto simp: analyze_session_def split: if_splits)
  obtain ts where ts: "record_timestamp L clk e = Inr ts"
    using run h by (cases "record_timestamp L clk e") (auto simp: analyze_session_def Let_def)
  obtain cutoff where cutoff: "dt_minus ts (timedelta_hours 1) = Inr cutoff"
    using run h ts
    by (cases "dt_minus ts (timedelta_hours 1)") (auto simp: analyze_session_def Let_def)
  obtain ops where ops: "select_after (Inr cutoff) (operations (st sid) @ [ts]) = Inr ops"
    using run h ts cutoff
    by (cases "select_after (Inr cutoff) (operations (st sid) @ [ts])")
      (auto simp: analyze_session_def Let_def)
  obtain recent where recent: "select_after (dt_minus ts (timedelta_minutes 5)) ops = Inr recent"
    using run h ts cutoff ops
    by (cases "select_after (dt_minus ts (timedelta_minutes 5)) ops")
      (auto simp: analyze_session_def Let_def)
  obtain details where det: "dict_get e ''action_details'' (JObj []) = JObj details"
    using run h ts cutoff ops recent
    by (cases "dict_get e ''action_details'' (JObj [])")
      (auto simp: analyze_session_def Let_def)
  from h ts cutoff ops recent det show ?thesis by (rule that)
qed






section \<open>Facts about the concrete instances\<close>

lemma example_lib_iso:
  "fromisoformat example_lib ''2024-01-01T00:10:00'' = Some (Naive 600000000)"
  "isoformat example_lib (Naive 600000000) = ''2024-01-01T00:10:00''"
  by (simp_all add: example_lib_def example_instants_def)

lemma example_lib_digests:
  "md5_hexdigest example_lib ''repeated_scope_s1_1704067800'' = ''289a3e285da516b164231732c2a4eef9''"
  "md5_hexdigest example_lib ''repeated_scope_s1_1704067801'' = ''46c88f92d5d016e7558d35d974861c9c''"
  "md5_hexdigest example_lib ''repeated_scope_violations_s1_2024-01-01T00:10:00'' =
     ''b1553a606b3c934d3c0076e8a16556de''"
  "md5_hexdigest example_lib ''dangerous_command_s1_2024-01-01T00:10:00'' =
     ''1399b5f021a687e06d2945d4f76e8f2a''"
  by (simp_all add: example_lib_def example_digests_def)

lemma epoch_strings:
  "str_int 1704067800 = ''1704067800''" "str_int 1704067801 = ''1704067801''"
  by (simp_all add: str_int_def str_nat.simps digit_char_def)

lemmas analyzer_eval = analyze_session_def record_timestamp_def dict_get_def
  datetime_fromisoformat_def example_lib_iso dt_minus_def dt_less_def dt_diff_def
  datetime_min_def datetime_max_def timedelta_hours_def timedelta_minutes_def Let_def

lemma third_violation:
  "analyze_session example_lib clk two_violations (JStr ''s1'') (snd scope_entry) =
     (two_violations
        (JStr ''s1'' :=
           \<lparr> operations = [Naive 600000000, Naive 600000000], scope_violations = 3,
             start_time = Some (Naive 600000000) \<rparr>),
      Inr [repeated_scope_alert example_lib clk (JStr ''s1'') (snd scope_entry)
             (Naive 600000000) 3 0])"
  by (simp add: analyzer_eval two_violations_def BehavioralAnalyzer_init_def scope_entry_def)


section \<open>Claims about the deduplicator\<close>

lemmas example_defs = example_dedup_def AlertDeduplicator_init_def example_alert_def
  example_lib_def example_instants_def example_digests_def should_alert_def dedup_key_def alert_getattr_def
  py_str_def datetime_fromisoformat_def timedelta_minutes_def accepted_def in_window_def
  timedelta_def dt_minus_def dt_less_def datetime_min_def datetime_max_def




section \<open>Claims about the dispatcher\<close>

text \<open>
  Claim C2. \<open>send_alert\<close> returns true exactly when the \<open>send\<close> of at least one
  configured handler returns true. Its trace of calls holds one entry for every
  handler, whatever the handlers before it returned or raised, and its events are the
  events of every handler in order, an error record after each handler that raised, and
  at the end an error record when no handler succeeded, a warning with the two counts
  when some but not all succeeded (the call still returning true), and nothing when all
  succeeded.
\<close>

theorem send_alert_any_success:
  "dr_success (send_alert L env hs a) = (\<exists>h\<in>set hs. fst (handler_send L env h a) = Inr True) \<and>
   dr_calls (send_alert L env hs a) = map (\<lambda>h. fst (handler_send L env h a)) hs \<and>
   dr_events (send_alert L env hs a) =
     concat (map (\<lambda>h. snd (handler_send L env h a) @
                   (if isl (fst (handler_send L env h a))
                    then [Log ERROR ''Notification handler failed''] else [])) hs) @
     (let n = length (filter (\<lambda>h. fst (handler_send L env h a) = Inr True) hs) in
      if n = 0 then [Log ERROR (''All notification handlers failed for alert '' @ alert_id a)]
      else if n < length hs then
        [Log WARNING (''Some notification handlers failed ('' @ str_nat n @ ''/'' @
           str_nat (length hs) @ '')'')]
      else [])"
  using send_alert_success [of L env hs a] send_alert_calls [of L env hs a]
    send_alert_events [of L env hs a]
  by (simp only: simp_thms)

text \<open>
  The theorem on a console that prints, a webhook whose payload template raises
  \<open>KeyError\<close> and a Grafana that answers 500: one success of three, reported as success
  with a warning.
\<close>

theorem send_alert_any_success_witness:
  "send_alert example_lib (example_channels (\<lambda>k. Status 200) (Status 500))
     (NotificationDispatcher_init example_notifications) (example_alert ''2024-01-01T00:10:00'') =
   \<lparr> dr_success = True,
     dr_calls = [Inr True, Inl KeyError, Inr False],
     dr_events =
       [ConsolePrint (example_alert ''2024-01-01T00:10:00''),
        Log ERROR ''Notification handler failed'',
        GrafanaRequest,
        Log WARNING ''Grafana notification failed'',
        Log WARNING ''Some notification handlers failed (1/3)''] \<rparr>"
proof -
  let ?r = "send_alert example_lib (example_channels (\<lambda>k. Status 200) (Status 500))
     (NotificationDispatcher_init example_notifications) (example_alert ''2024-01-01T00:10:00'')"
  have "dr_success ?r = True \<and> dr_calls ?r = [Inr True, Inl KeyError, Inr False] \<and>
        dr_events ?r = [ConsolePrint (example_alert ''2024-01-01T00:10:00''),
        Log ERROR ''Notification handler failed'',
        GrafanaRequest,
        Log WARNING ''Grafana notification failed'',
        Log WARNING ''Some notification handlers failed (1/3)'']"
    using send_alert_any_success [of example_lib "example_channels (\<lambda>k. Status 200) (Status 500)"
        "NotificationDispatcher_init example_notifications" "example_alert ''2024-01-01T00:10:00''"]
    by (simp add: dispatch_defs example_defs)
  then show ?thesis by (cases ?r) simp
qed

text \<open>
  Claim C6, as the code supports it. An enabled webhook with a URL and a payload that
  renders makes at most \<open>retry_attempts\<close> requests, and whatever its \<open>send\<close> returns or
  raises is one entry in the dispatcher's trace. If every attempt raises a
  \<open>RequestException\<close> (a 4xx or 5xx response, or a transport error), \<open>send\<close> returns
  false after all attempts, having slept \<open>2 ^ attempt\<close> seconds after each attempt but the
  last, and a dispatcher with this handler alone returns false. If the attempts before
  \<open>k\<close> raise so and attempt \<open>k\<close> gets a response that \<open>raise_for_status\<close> accepts (any
  status outside 400..599), \<open>send\<close> returns true at once, after \<open>k + 1\<close> requests and the
  sleeps \<open>2 ^ 0, ..., 2 ^ (k - 1)\<close>.
\<close>

theorem webhook_send_retries:
  assumes "w_enabled w" and "w_url w \<noteq> []" and "create_payload L w a = None"
  shows
    "length (requests_of (snd (webhook_send L env w a))) \<le> nat (w_retry_attempts w) \<and>
     dr_calls (send_alert L env [WebhookHandler w] a) = [fst (webhook_send L env w a)] \<and>
     ((\<forall>j < nat (w_retry_attempts w). request_raises (webhook_reply env j)) \<longrightarrow>
        fst (webhook_send L env w a) = Inr False \<and>
        requests_of (snd (webhook_send L env w a)) = [0..<nat (w_retry_attempts w)] \<and>
        sleeps_of (snd (webhook_send L env w a)) =
          map (\<lambda>j. 2 ^ j) [0..<nat (w_retry_attempts w) - 1] \<and>
        dr_success (send_alert L env [WebhookHandler w] a) = False) \<and>
     (\<forall>k s. k < nat (w_retry_attempts w) \<and> (\<forall>j < k. request_raises (webhook_reply env j)) \<and>
        webhook_reply env k = Status s \<and> \<not> raise_for_status s \<longrightarrow>
        fst (webhook_send L env w a) = Inr True \<and>
        requests_of (snd (webhook_send L env w a)) = [0..<Suc k] \<and>
        sleeps_of (snd (webhook_send L env w a)) = map (\<lambda>j. 2 ^ j) [0..<k])"
proof -
  define n where "n = nat (w_retry_attempts w)"
  define reply where "reply = webhook_reply env"
  have send: "webhook_send L env w a =
      webhook_attempts reply (alert_id a) (w_retry_attempts w) [0..<n]"
    using assms by (simp add: webhook_send_def n_def reply_def)
  have bound: "length (requests_of (snd (webhook_send L env w a))) \<le> n"
    using webhook_attempts_bound [of reply "alert_id a" "w_retry_attempts w" "[0..<n]"]
    by (simp add: send)
  have calls: "dr_calls (send_alert L env [WebhookHandler w] a) = [fst (webhook_send L env w a)]"
    by (simp add: send_alert_calls)
  have exhausted: "fst (webhook_send L env w a) = Inr False \<and>
        requests_of (snd (webhook_send L env w a)) = [0..<n] \<and>
        sleeps_of (snd (webhook_send L env w a)) = map (\<lambda>j. 2 ^ j) [0..<n - 1] \<and>
        dr_success (send_alert L env [WebhookHandler w] a) = False"
    if all: "\<forall>j < n. request_raises (reply j)"
  proof (cases "0 \<le> w_retry_attempts w")
    case True
    then have N: "w_retry_attempts w = int n" by (simp add: n_def)
    from all have "\<forall>j. 0 \<le> j \<and> j < n \<longrightarrow> request_raises (reply j)" by simp
    from webhook_attempts_exhausted [OF this, of "alert_id a"]
    have r: "fst (webhook_send L env w a) = Inr False \<and>
        requests_of (snd (webhook_send L env w a)) = [0..<n] \<and>
        sleeps_of (snd (webhook_send L env w a)) = map (\<lambda>j. 2 ^ j) [0..<n - 1]"
      by (simp add: send N)
    then show ?thesis by (simp add: send_alert_success)
  next
    case False
    then have "n = 0" by (simp add: n_def)
    then have r: "fst (webhook_send L env w a) = Inr False \<and>
        requests_of (snd (webhook_send L env w a)) = [0..<n] \<and>
        sleeps_of (snd (webhook_send L env w a)) = map (\<lambda>j. 2 ^ j) [0..<n - 1]"
      by (simp add: send)
    then show ?thesis by (simp add: send_alert_success)
  qed
  have delivered: "fst (webhook_send L env w a) = Inr True \<and>
        requests_of (snd (webhook_send L env w a)) = [0..<Suc k] \<and>
        sleeps_of (snd (webhook_send L env w a)) = map (\<lambda>j. 2 ^ j) [0..<k]"
    if k: "k < n" and before: "\<forall>j < k. request_raises (reply j)"
      and ok: "reply k = Status s" "\<not> raise_for_status s" for k s
  proof -
    from k have N: "w_retry_attempts w = int n" by (simp add: n_def)
    from before have "\<forall>j. 0 \<le> j \<and> j < k \<longrightarrow> request_raises (reply j)" by simp
    from webhook_attempts_delivered [OF _ k this ok, of "alert_id a"]
    show ?thesis by (simp add: send N del: upt_Suc)
  qed
  show ?thesis
    using bound calls exhausted delivered unfolding n_def reply_def by blast
qed

text \<open>
  The theorem with three attempts: three responses 500 give failure after the sleeps of
  1 and 2 seconds; a 500 followed by a 200 gives success after one sleep of 1 second.
\<close>

theorem webhook_send_retries_witness:
  "fst (webhook_send example_lib (example_channels (\<lambda>k. Status 500) (Status 200)) example_webhook
          (example_alert ''2024-01-01T00:10:00'')) = Inr False \<and>
   requests_of (snd (webhook_send example_lib (example_channels (\<lambda>k. Status 500) (Status 200))
          example_webhook (example_alert ''2024-01-01T00:10:00''))) = [0, 1, 2] \<and>
   sleeps_of (snd (webhook_send example_lib (example_channels (\<lambda>k. Status 500) (Status 200))
          example_webhook (example_alert ''2024-01-01T00:10:00''))) = [1, 2] \<and>
   dr_success (send_alert example_lib (example_channels (\<lambda>k. Status 500) (Status 200))
          [WebhookHandler example_webhook] (example_alert ''2024-01-01T00:10:00'')) = False \<and>
   fst (webhook_send example_lib
          (example_channels (\<lambda>k. if k = 0 then Status 500 else Status 200) (Status 200))
          example_webhook (example_alert ''2024-01-01T00:10:00'')) = Inr True \<and>
   requests_of (snd (webhook_send example_lib
          (example_channels (\<lambda>k. if k = 0 then Status 500 else Status 200) (Status 200))
          example_webhook (example_alert ''2024-01-01T00:10:00''))) = [0, 1] \<and>
   sleeps_of (snd (webhook_send example_lib
          (example_channels (\<lambda>k. if k = 0 then Status 500 else Status 200) (Status 200))
          example_webhook (example_alert ''2024-01-01T00:10:00''))) = [1]"
proof -
  let ?a = "example_alert ''2024-01-01T00:10:00''"
  let ?e1 = "example_channels (\<lambda>k. Status 500) (Status 200)"
  let ?e2 = "example_channels (\<lambda>k. if k = 0 then Status 500 else Status 200) (Status 200)"
  have en: "w_enabled example_webhook" "w_url example_webhook \<noteq> []"
    "create_payload example_lib example_webhook ?a = None"
    by (simp_all add: dispatch_defs)
  have n: "nat (w_retry_attempts example_webhook) = 3" by (simp add: dispatch_defs)
  have all: "\<forall>j < nat (w_retry_attempts example_webhook). request_raises (webhook_reply ?e1 j)"
    by (simp add: dispatch_defs)
  have second: "(1::nat) < nat (w_retry_attempts example_webhook) \<and>
      (\<forall>j < 1. request_raises (webhook_reply ?e2 j)) \<and>
      webhook_reply ?e2 1 = Status 200 \<and> \<not> raise_for_status 200"
    by (simp add: dispatch_defs)
  have lists: "[0..<3] = [0, 1, 2::nat]" "[0..<Suc 1] = [0, 1::nat]" "[0..<(3::nat) - 1] = [0, 1]"
    "[0..<1] = [0::nat]" "[0..<2] = [0, 1::nat]"
    by (simp_all add: upt_rec)
  from webhook_send_retries [OF en, of ?e1] all
  have first: "fst (webhook_send example_lib ?e1 example_webhook ?a) = Inr False \<and>
      requests_of (snd (webhook_send example_lib ?e1 example_webhook ?a)) = [0, 1, 2] \<and>
      sleeps_of (snd (webhook_send example_lib ?e1 example_webhook ?a)) = [1, 2] \<and>
      dr_success (send_alert example_lib ?e1 [WebhookHandler example_webhook] ?a) = False"
    by (simp add: n lists)
  from webhook_send_retries [OF en, of ?e2] second
  have "fst (webhook_send example_lib ?e2 example_webhook ?a) = Inr True \<and>
      requests_of (snd (webhook_send example_lib ?e2 example_webhook ?a)) = [0..<Suc 1] \<and>
      sleeps_of (snd (webhook_send example_lib ?e2 example_webhook ?a)) = map (\<lambda>j. 2 ^ j) [0..<1]"
    by blast
  with first show ?thesis by (simp add: lists)
qed

text \<open>
  The claim as stated fails for a response that is neither 2xx nor an error for
  \<open>raise_for_status\<close>: a 304 on the first attempt is not retried, \<open>send\<close> returns true.
\<close>

theorem webhook_send_redirect_counterexample:
  "webhook_send example_lib (example_channels (\<lambda>k. Status 304) (Status 200)) example_webhook
     (example_alert ''2024-01-01T00:10:00'') =
   (Inr True, [WebhookRequest 0, Log INFO ''Webhook sent for alert 0123456789ab''])"
  by (simp add: dispatch_defs example_defs upt_rec)

text \<open>
  Claim C7 says the result of \<open>send_alert\<close> does not depend on whether the Grafana handler
  succeeds. The code returns \<open>False\<close> from \<open>GrafanaNotifier.send\<close> on a failure, and the
  dispatcher counts it like any other handler: with Grafana as the only configured
  channel, \<open>send_alert\<close> returns false when the request to Grafana fails and true when
  it succeeds.
\<close>

theorem grafana_failure_fails_send_alert:
  "dr_success (send_alert example_lib (example_channels (\<lambda>k. Status 200) RequestFailed)
     (NotificationDispatcher_init grafana_only) (example_alert ''2024-01-01T00:10:00'')) = False \<and>
   dr_success (send_alert example_lib (example_channels (\<lambda>k. Status 200) (Status 200))
     (NotificationDispatcher_init grafana_only) (example_alert ''2024-01-01T00:10:00'')) = True"
  by (simp add: send_alert_def dispatch_defs example_defs)

text \<open>
  Claim C10. Without any channel section the dispatcher has no handler and \<open>send_alert\<close>
  returns false for every alert. A disabled console does not notify, and a console that
  does not notify (disabled, or severity below \<open>min_severity\<close>) returns true from
  \<open>send\<close> without an event; so do a disabled log file, a mail channel that is disabled
  or finds no recipients (none for the severity and no default list), a webhook that is
  disabled or has no URL, and a disabled Grafana. When every handler of a non-empty list
  skips in this way, \<open>send_alert\<close> returns true and nothing was delivered.
\<close>

theorem send_alert_counts_skips:
  "NotificationDispatcher_init no_notifications = [] \<and>
   dr_success (send_alert L env (NotificationDispatcher_init no_notifications) a) = False \<and>
   (\<not> c_enabled n \<longrightarrow> \<not> should_notify n (severity a)) \<and>
   (\<not> should_notify n (severity a) \<longrightarrow> console_send L env n a = (Inr True, [])) \<and>
   (\<not> lf_enabled lf \<longrightarrow> logfile_send env lf a = (Inr True, [])) \<and>
   (map_of (em_recipients em) (severity a) = None \<and> map_of (em_recipients em) ''default'' = None
      \<longrightarrow> get_recipients em (severity a) = []) \<and>
   (\<not> em_enabled em \<or> get_recipients em (severity a) = []
      \<longrightarrow> email_send L env em a = (Inr True, [])) \<and>
   (\<not> w_enabled w \<or> w_url w = [] \<longrightarrow> webhook_send L env w a = (Inr True, [])) \<and>
   (\<not> g_enabled g \<longrightarrow> grafana_send L env g a = (Inr True, [])) \<and>
   (hs \<noteq> [] \<and> (\<forall>h\<in>set hs. handler_send L env h a = (Inr True, [])) \<longrightarrow>
      dr_success (send_alert L env hs a) \<and> dr_events (send_alert L env hs a) = [])"
proof -
  have none: "NotificationDispatcher_init no_notifications = []"
    by (simp add: NotificationDispatcher_init_def no_notifications_def)
  have fail: "dr_success (send_alert L env (NotificationDispatcher_init no_notifications) a) = False"
    by (simp add: none send_alert_success)
  have skip: "dr_success (send_alert L env hs a) \<and> dr_events (send_alert L env hs a) = []"
    if ne: "hs \<noteq> []" and all: "\<forall>h\<in>set hs. handler_send L env h a = (Inr True, [])"
  proof -
    from ne obtain h where "h \<in> set hs" by (cases hs) auto
    with all have s: "dr_success (send_alert L env hs a)"
      by (auto simp: send_alert_success)
    have f: "filter (\<lambda>h. fst (handler_send L env h a) = Inr True) hs = hs"
      using all by (simp add: filter_id_conv)
    have c: "concat (map (\<lambda>h. snd (handler_send L env h a) @
                   (if isl (fst (handler_send L env h a))
                    then [Log ERROR ''Notification handler failed''] else [])) hs) = []"
      using all by simp
    have "dr_events (send_alert L env hs a) = []"
      using ne by (simp only: send_alert_events f c Let_def) simp
    with s show ?thesis by simp
  qed
  show ?thesis
    using none fail skip
    by (simp add: should_notify_def console_send_def logfile_send_def get_recipients_def
        email_send_def webhook_send_def grafana_send_def Let_def)
qed

text \<open>
  The theorem on a configuration with a disabled console and a mail channel without
  recipients, and on one whose console shows critical alerts only, for an alert of
  severity HIGH: success, and no event.
\<close>

theorem send_alert_counts_skips_witness:
  "send_alert example_lib (example_channels (\<lambda>k. Status 200) (Status 200))
     (NotificationDispatcher_init silent_notifications) (example_alert ''2024-01-01T00:10:00'') =
     \<lparr> dr_success = True, dr_calls = [Inr True, Inr True], dr_events = [] \<rparr> \<and>
   send_alert example_lib (example_channels (\<lambda>k. Status 200) (Status 200))
     (NotificationDispatcher_init critical_only_notifications)
     (example_alert ''2024-01-01T00:10:00'') =
     \<lparr> dr_success = True, dr_calls = [Inr True], dr_events = [] \<rparr>"
proof -
  let ?a = "example_alert ''2024-01-01T00:10:00''"
  let ?env = "example_channels (\<lambda>k. Status 200) (Status 200)"
  let ?c1 = "ConsoleNotifier_init \<lparr> cc_enabled = Some False, cc_min_severity = None,
      cc_format = None, cc_colors = None \<rparr>"
  let ?c2 = "ConsoleNotifier_init \<lparr> cc_enabled = None, cc_min_severity = Some ''CRITICAL'',
      cc_format = None, cc_colors = None \<rparr>"
  let ?em = "EmailNotifier_init \<lparr> ec_enabled = Some True, ec_recipients = None \<rparr>"
  have hs1: "NotificationDispatcher_init silent_notifications = [ConsoleHandler ?c1, EmailHandler ?em]"
    by (simp add: NotificationDispatcher_init_def silent_notifications_def)
  have hs2: "NotificationDispatcher_init critical_only_notifications = [ConsoleHandler ?c2]"
    by (simp add: NotificationDispatcher_init_def critical_only_notifications_def)
  have off: "\<not> c_enabled ?c1" by (simp add: ConsoleNotifier_init_def)
  have low: "\<not> should_notify ?c2 (severity ?a)"
    by (simp add: dispatch_defs example_defs)
  have norec: "map_of (em_recipients ?em) (severity ?a) = None \<and>
      map_of (em_recipients ?em) ''default'' = None"
    by (simp add: EmailNotifier_init_def)
  note T1 = send_alert_counts_skips [of example_lib ?env ?a ?c1 _ ?em _ _
      "[ConsoleHandler ?c1, EmailHandler ?em]"]
  note T2 = send_alert_counts_skips [of example_lib ?env ?a ?c2 _ ?em _ _ "[ConsoleHandler ?c2]"]
  have s1: "console_send example_lib ?env ?c1 ?a = (Inr True, [])" using T1 off by blast
  have s2: "email_send example_lib ?env ?em ?a = (Inr True, [])" using T1 norec by blast
  have s3: "console_send example_lib ?env ?c2 ?a = (Inr True, [])" using T2 low by blast
  have r1: "dr_success (send_alert example_lib ?env [ConsoleHandler ?c1, EmailHandler ?em] ?a) \<and>
      dr_events (send_alert example_lib ?env [ConsoleHandler ?c1, EmailHandler ?em] ?a) = []"
    using T1 s1 s2 by simp
  have r2: "dr_success (send_alert example_lib ?env [ConsoleHandler ?c2] ?a) \<and>
      dr_events (send_alert example_lib ?env [ConsoleHandler ?c2] ?a) = []"
    using T2 s3 by simp
  have c1: "dr_calls (send_alert example_lib ?env [ConsoleHandler ?c1, EmailHandler ?em] ?a) =
      [Inr True, Inr True]"
    by (simp add: send_alert_calls s1 s2)
  have c2: "dr_calls (send_alert example_lib ?env [ConsoleHandler ?c2] ?a) = [Inr True]"
    by (simp add: send_alert_calls s3)
  have e1: "send_alert example_lib ?env [ConsoleHandler ?c1, EmailHandler ?em] ?a =
      \<lparr> dr_success = True, dr_calls = [Inr True, Inr True], dr_events = [] \<rparr>"
    using r1 c1 by (cases "send_alert example_lib ?env [ConsoleHandler ?c1, EmailHandler ?em] ?a") simp
  have e2: "send_alert example_lib ?env [ConsoleHandler ?c2] ?a =
      \<lparr> dr_success = True, dr_calls = [Inr True], dr_events = [] \<rparr>"
    using r2 c2 by (cases "send_alert example_lib ?env [ConsoleHandler ?c2] ?a") simp
  show ?thesis unfolding hs1 hs2 using e1 e2 by simp
qed

section \<open>Claims about the engine\<close>

lemmas engine_defs = example_engine_def example_world_def example_rules_def malformed_entry_def
  run_once_def check_health_def health_check_def process_logs_def query_range_def
  check_pattern_rule_def engine_generate_alert_id_def engine_alert_content_def
  analyze_session_def record_timestamp_def dict_get_def datetime_fromisoformat_def
  BehavioralAnalyzer_init_def dt_minus_def dt_less_def dt_diff_def datetime_min_def
  datetime_max_def timedelta_hours_def timedelta_minutes_def List.map_filter_simps Let_def

text \<open>
  Claim C8. When the health check fails at the start of a cycle, because the readiness
  probe raises a \<open>RequestException\<close> or answers another status than 200, or because the
  error counter has reached the ceiling (\<open>max_consecutive_errors\<close>, 5 when not
  configured), \<open>run_once\<close> returns 1, the engine is what it was before the cycle (cursor,
  rules, session state, dedup history and counters), and its events are those of the
  health check alone: no range query was sent.
\<close>

theorem run_once_health_gate:
  assumes "loki_ready w \<noteq> OtherFailure"
    and "loki_ready w \<noteq> Status 200 \<or>
         (case max_consecutive_errors eng of None \<Rightarrow> 5 | Some m \<Rightarrow> m) \<le> error_count eng"
  shows "fst (run_once L w eng) = eng \<and>
         fst (snd (run_once L w eng)) = Inr 1 \<and>
         snd (snd (run_once L w eng)) = snd (check_health w eng) \<and>
         queries_of (snd (snd (run_once L w eng))) = []"
proof -
  have "fst (check_health w eng) = Inr False"
    using assms
    by (cases "loki_ready w")
      (auto simp: check_health_def health_check_def Let_def split: bool.splits)
  moreover have "queries_of (snd (check_health w eng)) = []"
    by (cases "loki_ready w")
      (auto simp: check_health_def health_check_def Let_def split: option.splits bool.splits)
  ultimately show ?thesis
    by (cases "check_health w eng") (simp add: run_once_def)
qed

text \<open>
  The theorem on an unreachable log source, and on a reachable one with five errors on
  the counter.
\<close>

theorem run_once_health_gate_witness:
  "run_once example_lib (example_world RequestFailed (Entries [malformed_entry])) example_engine =
     (example_engine, Inr 1, [LokiProbe, Log ERROR ''Loki health check failed'']) \<and>
   run_once example_lib (example_world (Status 200) (Entries [malformed_entry]))
       (example_engine\<lparr>error_count := 5\<rparr>) =
     (example_engine\<lparr>error_count := 5\<rparr>, Inr 1,
      [LokiProbe, Log ERROR ''Too many consecutive errors: 5''])"
proof -
  let ?w1 = "example_world RequestFailed (Entries [malformed_entry])"
  let ?w2 = "example_world (Status 200) (Entries [malformed_entry])"
  let ?e2 = "example_engine\<lparr>error_count := 5\<rparr>"
  have a1: "loki_ready ?w1 \<noteq> OtherFailure" by (simp add: example_world_def)
  have b1: "loki_ready ?w1 \<noteq> Status 200 \<or>
         (case max_consecutive_errors example_engine of None \<Rightarrow> 5 | Some m \<Rightarrow> m)
           \<le> error_count example_engine"
    by (simp add: example_world_def)
  have a2: "loki_ready ?w2 \<noteq> OtherFailure" by (simp add: example_world_def)
  have b2: "loki_ready ?w2 \<noteq> Status 200 \<or>
         (case max_consecutive_errors ?e2 of None \<Rightarrow> 5 | Some m \<Rightarrow> m) \<le> error_count ?e2"
    by (simp add: example_world_def example_engine_def)
  have c1: "snd (check_health ?w1 example_engine) = [LokiProbe, Log ERROR ''Loki health check failed'']"
    by (simp add: check_health_def health_check_def example_world_def)
  have c2: "snd (check_health ?w2 ?e2) = [LokiProbe, Log ERROR ''Too many consecutive errors: 5'']"
    by (simp add: check_health_def health_check_def example_world_def example_engine_def
        str_int_def str_nat_small digit_char_def)
  from run_once_health_gate [OF a1 b1, of example_lib] c1
  have r1: "run_once example_lib ?w1 example_engine =
     (example_engine, Inr 1, [LokiProbe, Log ERROR ''Loki health check failed''])"
    by (cases "run_once example_lib ?w1 example_engine") simp
  from run_once_health_gate [OF a2 b2, of example_lib] c2
  have r2: "run_once example_lib ?w2 ?e2 =
     (?e2, Inr 1, [LokiProbe, Log ERROR ''Too many consecutive errors: 5''])"
    by (cases "run_once example_lib ?w2 ?e2") simp
  from r1 r2 show ?thesis by simp
qed

text \<open>
  Claim C3 says a failing range query increments the error counter and leaves the
  cursor. \<open>query_range\<close> catches the \<open>RequestException\<close> itself and returns the empty
  list, so \<open>process_logs\<close> completes its \<open>try\<close> block: with two errors on the counter and
  the cursor at 0, a failed query resets the counter to 0 and moves the cursor to the
  time of the poll. Any other exception of the query takes the handler of
  \<open>process_logs\<close>: the counter becomes 3 and the cursor stays.
\<close>

theorem process_logs_swallows_query_failure:
  "error_count example_engine = 2 \<and> last_check_time example_engine = 0 \<and>
   error_count (fst (process_logs example_lib (example_world (Status 200) QueryFailed)
      example_engine)) = 0 \<and>
   last_check_time (fst (process_logs example_lib (example_world (Status 200) QueryFailed)
      example_engine)) = 600000000 \<and>
   error_count (fst (process_logs example_lib (example_world (Status 200) QueryBroken)
      example_engine)) = 3 \<and>
   last_check_time (fst (process_logs example_lib (example_world (Status 200) QueryBroken)
      example_engine)) = 0"
  by (simp add: engine_defs)

text \<open>
  Claim C4 says a malformed timestamp never aborts the cycle. The analyzer does fall
  back to the current time for the record below. The rule engine copies the malformed
  string into the alert, and \<open>should_alert\<close> parses it outside every \<open>try\<close> block:
  \<open>run_once\<close> raises \<open>ValueError\<close>.
\<close>

theorem run_once_raises_on_malformed_timestamp:
  "record_timestamp example_lib (entry_clock (example_world (Status 200) (Entries [malformed_entry])) 0)
     malformed_entry = Inr (Naive 600000000) \<and>
   fst (snd (process_logs example_lib (example_world (Status 200) (Entries [malformed_entry]))
      example_engine)) =
     [\<lparr> alert_id = ''9f8fadd16e81'',
        rule_name = ''dangerous_command'', severity = ''HIGH'',
        description = ''Dangerous command'', category = ''security'',
        timestamp = JStr ''not-a-timestamp'', session_id = JStr ''s1'', alert_context = [],
        raw_log = malformed_entry, escalation_count = 0 \<rparr>] \<and>
   fst (snd (run_once example_lib (example_world (Status 200) (Entries [malformed_entry]))
      example_engine)) = Inl ValueError"
  by (simp add: engine_defs example_defs)

section \<open>Claims about the behavioral analyzer\<close>




section \<open>Claims about alert identifiers\<close>

text \<open>
  Claim C9, as the code supports it. The \<open>alert_id\<close> of a pattern-rule alert is the
  first 12 hexadecimal characters of the MD5 digest of the rule name, the record's
  \<open>session_id\<close> (the empty string when the record has none) and the record's
  \<open>timestamp\<close> (the empty string when it has none), joined by underscores, so it is
  the same whatever the clock. The \<open>alert_id\<close> of a behavioral alert is the first 12
  characters of the digest of the tag \<open>high_frequency\<close> or \<open>repeated_scope\<close>, the
  session id and the wall-clock time in whole seconds at which the alert is built:
  it contains neither the rule name nor the record's timestamp.
\<close>

theorem alert_id_content:
  "(check_pattern_rule L clk rule e = Some a \<longrightarrow>
      rule_name a = r_name rule \<and>
      alert_id a =
        take 12 (md5_hexdigest L
          (r_name rule @ ''_'' @ py_str L (dict_get e ''session_id'' (JStr [])) @ ''_'' @
           py_str L (dict_get e ''timestamp'' (JStr [])))) \<and>
      (\<forall>clk' a'. check_pattern_rule L clk' rule e = Some a' \<longrightarrow> alert_id a' = alert_id a)) \<and>
   (analyze_session L clk st sid e = (st', Inr alerts) \<and> b \<in> set alerts \<longrightarrow>
      (rule_name b = ''high_frequency_operations'' \<and>
       alert_id b =
         take 12 (md5_hexdigest L
           (''high_frequency_'' @ py_str L sid @ ''_'' @ str_int (epoch_now clk)))) \<or>
      (rule_name b = ''repeated_scope_violations'' \<and>
       alert_id b =
         take 12 (md5_hexdigest L
           (''repeated_scope_'' @ py_str L sid @ ''_'' @ str_int (epoch_now clk)))))"
proof -
  have pattern: "rule_name a = r_name rule \<and>
      alert_id a =
        take 12 (md5_hexdigest L
          (r_name rule @ ''_'' @ py_str L (dict_get e ''session_id'' (JStr [])) @ ''_'' @
           py_str L (dict_get e ''timestamp'' (JStr [])))) \<and>
      (\<forall>clk' a'. check_pattern_rule L clk' rule e = Some a' \<longrightarrow> alert_id a' = alert_id a)"
    if "check_pattern_rule L clk rule e = Some a"
    using that
    by (auto simp: check_pattern_rule_def engine_generate_alert_id_def engine_alert_content_def
        Let_def split: option.splits if_splits)
  have behavioral: "(rule_name b = ''high_frequency_operations'' \<and>
       alert_id b =
         take 12 (md5_hexdigest L
           (''high_frequency_'' @ py_str L sid @ ''_'' @ str_int (epoch_now clk)))) \<or>
      (rule_name b = ''repeated_scope_violations'' \<and>
       alert_id b =
         take 12 (md5_hexdigest L
           (''repeated_scope_'' @ py_str L sid @ ''_'' @ str_int (epoch_now clk))))"
    if run: "analyze_session L clk st sid e = (st', Inr alerts)" and mem: "b \<in> set alerts"
  proof -
    from run obtain ts cutoff ops recent details where
      h: "hashable sid" and ts: "record_timestamp L clk e = Inr ts"
      and cutoff: "dt_minus ts (timedelta_hours 1) = Inr cutoff"
      and ops: "select_after (Inr cutoff) (operations (st sid) @ [ts]) = Inr ops"
      and recent: "select_after (dt_minus ts (timedelta_minutes 5)) ops = Inr recent"
      and det: "dict_get e ''action_details'' (JObj []) = JObj details"
      by (rule analyze_session_normal)
    define P :: "alert \<Rightarrow> bool" where "P a \<longleftrightarrow>
      (rule_name a = ''high_frequency_operations'' \<and>
       alert_id a =
         take 12 (md5_hexdigest L
           (''high_frequency_'' @ py_str L sid @ ''_'' @ str_int (epoch_now clk)))) \<or>
      (rule_name a = ''repeated_scope_violations'' \<and>
       alert_id a =
         take 12 (md5_hexdigest L
           (''repeated_scope_'' @ py_str L sid @ ''_'' @ str_int (epoch_now clk))))" for a
    have hf: "P (high_frequency_alert L clk sid e ts n)" for n
      by (simp add: P_def high_frequency_alert_def analyzer_generate_alert_id_def
          analyzer_alert_content_def)
    have rs: "P (repeated_scope_alert L clk sid e ts v s0)" for v s0
      by (simp add: P_def repeated_scope_alert_def analyzer_generate_alert_id_def
          analyzer_alert_content_def)
    have "\<forall>a\<in>set alerts. P a"
      using run h
      by (auto simp: analyze_session_def ts cutoff ops recent det Let_def hf rs
          split: if_splits sum.splits)
    with mem have "P b" by blast
    then show ?thesis unfolding P_def .
  qed
  from pattern behavioral show ?thesis by blast
qed

text \<open>
  The theorem on a record of session \<open>s1\<close> stamped 2024-01-01T00:10:00: the alert of
  the rule \<open>dangerous_command\<close> has the id \<open>1399b5f021a6\<close>, and the repeated-scope alert
  built at the epoch second 1704067800 has the id \<open>289a3e285da5\<close>.
\<close>

theorem alert_id_content_witness:
  "(\<exists>a. check_pattern_rule example_lib (fst scope_entry) example_rule (snd scope_entry) = Some a \<and>
        alert_id a = ''1399b5f021a6'') \<and>
   (\<exists>st' b. analyze_session example_lib (fst scope_entry) two_violations (JStr ''s1'')
               (snd scope_entry) = (st', Inr [b]) \<and>
        alert_id b = ''289a3e285da5'')"
proof -
  let ?clk = "fst scope_entry" and ?e = "snd scope_entry"
  have "pattern_search example_lib ''.*'' ?e" by (simp add: example_lib_def)
  then have "check_pattern_rule example_lib ?clk example_rule ?e \<noteq> None"
    by (simp add: check_pattern_rule_def example_rule_def Let_def)
  then obtain a where a: "check_pattern_rule example_lib ?clk example_rule ?e = Some a"
    by auto
  have key: "r_name example_rule @ ''_'' @
      py_str example_lib (dict_get ?e ''session_id'' (JStr [])) @ ''_'' @
      py_str example_lib (dict_get ?e ''timestamp'' (JStr [])) =
      ''dangerous_command_s1_2024-01-01T00:10:00''"
    by (simp add: example_rule_def scope_entry_def dict_get_def py_str_def)
  from alert_id_content [of example_lib ?clk example_rule ?e a] a
  have "alert_id a = take 12 (md5_hexdigest example_lib
          (r_name example_rule @ ''_'' @
           py_str example_lib (dict_get ?e ''session_id'' (JStr [])) @ ''_'' @
           py_str example_lib (dict_get ?e ''timestamp'' (JStr []))))"
    by blast
  then have ida: "alert_id a = ''1399b5f021a6''"
    by (simp only: key example_lib_digests) simp
  obtain st' r where run: "analyze_session example_lib ?clk two_violations (JStr ''s1'') ?e = (st', r)"
    by (cases "analyze_session example_lib ?clk two_violations (JStr ''s1'') ?e") auto
  define b where "b = repeated_scope_alert example_lib ?clk (JStr ''s1'') ?e (Naive 600000000) 3 0"
  from third_violation [of ?clk] run have r: "r = Inr [b]" by (simp add: b_def)
  have name: "rule_name b = ''repeated_scope_violations''"
    by (simp add: b_def repeated_scope_alert_def)
  have ep: "epoch_now ?clk = 1704067800" by (simp add: scope_entry_def)
  from alert_id_content [where L = example_lib and clk = ?clk and st = two_violations
      and sid = "JStr ''s1''" and e = ?e and st' = st' and alerts = "[b]" and b = b]
    run r name
  have idb: "alert_id b = ''289a3e285da5''"
    by (simp add: ep py_str_def epoch_strings example_lib_digests)
  from a ida run r idb show ?thesis by blast
qed

text \<open>
  The claim as stated fails for behavioral alerts: the same record of the same
  session, analyzed from the same state at two different seconds of the wall clock,
  gets the ids \<open>289a3e285da5\<close> and \<open>46c88f92d5d0\<close>, and neither is the id
  \<open>b1553a606b3c\<close> that rule name, session id and record timestamp would give.
\<close>

theorem behavioral_alert_id_counterexample:
  "map_sum id (map alert_id)
     (snd (analyze_session example_lib \<lparr> dt_now = 600000000, epoch_now = 1704067800 \<rparr>
             two_violations (JStr ''s1'') (snd scope_entry))) = Inr [''289a3e285da5''] \<and>
   map_sum id (map alert_id)
     (snd (analyze_session example_lib \<lparr> dt_now = 600000000, epoch_now = 1704067801 \<rparr>
             two_violations (JStr ''s1'') (snd scope_entry))) = Inr [''46c88f92d5d0''] \<and>
   map_sum id
     (map (\<lambda>a. take 12 (md5_hexdigest example_lib
              (rule_name a @ ''_'' @ py_str example_lib (session_id a) @ ''_'' @
               py_str example_lib (timestamp a)))))
     (snd (analyze_session example_lib \<lparr> dt_now = 600000000, epoch_now = 1704067800 \<rparr>
             two_violations (JStr ''s1'') (snd scope_entry))) = Inr [''b1553a606b3c'']"
  by (simp add: third_violation repeated_scope_alert_def analyzer_generate_alert_id_def
      analyzer_alert_content_def py_str_def epoch_strings example_lib_digests example_lib_iso)


end
